theory Spec2Isabelle
  imports Complex_Main
begin

section \<open>Ledger service (services/ledgerService.js)\<close>

text \<open>
  Monetary amounts are the exact values of the numbers the code computes with
  (\<open>DECIMAL(19,4)\<close> columns read through \<open>parseFloat\<close>); in the transfer and the deposit
  rounding and \<open>NaN\<close> are outside the model, in the daily report the arithmetic on doubles
  is modelled. Identifiers (UUIDs in the database) are natural numbers, timestamps are
  microseconds of local time. The columns \<open>currency\<close> (always \<open>'PKR'\<close>), \<open>metadata\<close> and
  \<open>updated_at\<close> take part in no decision and are left out.
\<close>

datatype error =
    InsufficientBalance      \<comment> \<open>\<open>Error('Insufficient balance')\<close>\<close>
  | SourceNotActive          \<comment> \<open>\<open>Error('Source account is not active')\<close>\<close>
  | DestinationNotActive     \<comment> \<open>\<open>Error('Destination account is not active')\<close>\<close>
  | TypeError                \<comment> \<open>property read on \<open>undefined\<close>\<close>
  | DbError                  \<comment> \<open>a statement rejected or failed in the database\<close>

datatype db_op =
    InsertAccount | InsertTransaction | InsertDebit | InsertCredit
  | UpdateFromBalance | UpdateToBalance | CompleteTransaction
  | InsertDepositTransaction | InsertDepositEntry | UpdateDepositBalance
  | SelectTransactions | SelectTotals

record account =
  acc_id :: nat
  user_id :: nat
  account_type :: string
  balance :: rat
  status :: string

datatype entry_type = Debit | Credit

record ledger_entry =
  le_transaction_ref :: string
  le_account_id :: nat
  le_entry_type :: entry_type
  le_amount :: rat
  le_balance_after :: rat
  le_created_at :: int

record transaction_row =
  tx_id :: nat
  tx_transaction_ref :: string
  tx_type :: string
  tx_from_account_id :: "nat option"
  tx_to_account_id :: "nat option"
  tx_amount :: rat
  tx_status :: string
  tx_created_at :: int

record db =
  accounts :: "account list"
  ledger_entries :: "ledger_entry list"
  transactions :: "transaction_row list"

text \<open>
  The surroundings of one call: the reference \<open>generateTRN\<close> returns (a timestamp and six
  random characters), the database clock, and which statements the database rejects.
\<close>

record env =
  generateTRN :: string
  now :: int
  fails :: "db_op \<Rightarrow> bool"

text \<open>
  A connection with one open transaction. Statements issued on \<open>knex\<close> commit at once
  and are seen by the transaction (read committed); statements issued on \<open>trx\<close> are seen
  by the transaction only, until it commits. \<open>locked\<close> lists the account rows selected
  \<open>FOR UPDATE\<close>, in the order of the requests.
\<close>

record conn =
  outside :: db
  inside :: db
  locked :: "nat list"

definition knex_write :: "(db \<Rightarrow> db) \<Rightarrow> conn \<Rightarrow> conn" where
  "knex_write f c = c\<lparr>outside := f (outside c), inside := f (inside c)\<rparr>"

definition trx_write :: "(db \<Rightarrow> db) \<Rightarrow> conn \<Rightarrow> conn" where
  "trx_write f c = c\<lparr>inside := f (inside c)\<rparr>"

definition knex_transaction ::
  "(conn \<Rightarrow> (error + 'a) \<times> conn) \<Rightarrow> db \<Rightarrow> (error + 'a) \<times> db" where
  "knex_transaction callback d =
     (case callback \<lparr>outside = d, inside = d, locked = []\<rparr> of
        (Inl er, c) \<Rightarrow> (Inl er, outside c)
      | (Inr r, c) \<Rightarrow> (Inr r, inside c))"

definition fresh_id :: "nat list \<Rightarrow> nat" where
  "fresh_id ids = Suc (fold max ids 0)"

definition find_account :: "db \<Rightarrow> nat \<Rightarrow> string \<Rightarrow> account option" where
  "find_account d uid ty =
     List.find (\<lambda>a. user_id a = uid \<and> account_type a = ty) (accounts d)"

definition insert_account :: "account \<Rightarrow> db \<Rightarrow> db" where
  "insert_account a d = d\<lparr>accounts := accounts d @ [a]\<rparr>"

definition getOrCreateAccount ::
  "env \<Rightarrow> nat \<Rightarrow> string \<Rightarrow> conn \<Rightarrow> (error + account) \<times> conn" where
  "getOrCreateAccount e userId accountType c =
     (case find_account (outside c) userId accountType of
        Some a \<Rightarrow> (Inr a, c)
      | None \<Rightarrow>
          if fails e InsertAccount then (Inl DbError, c)
          else
            let a = \<lparr>acc_id = fresh_id (map acc_id (accounts (outside c))),
                     user_id = userId, account_type = accountType,
                     balance = 0, status = ''active''\<rparr>
            in (Inr a, knex_write (insert_account a) c))"

definition select_for_update :: "nat \<Rightarrow> conn \<Rightarrow> account option \<times> conn" where
  "select_for_update i c =
     (List.find (\<lambda>a. acc_id a = i) (accounts (inside c)),
      c\<lparr>locked := locked c @ [i]\<rparr>)"

definition insert_transaction :: "transaction_row \<Rightarrow> db \<Rightarrow> db" where
  "insert_transaction t d = d\<lparr>transactions := transactions d @ [t]\<rparr>"

definition insert_ledger_entry :: "ledger_entry \<Rightarrow> db \<Rightarrow> db" where
  "insert_ledger_entry x d = d\<lparr>ledger_entries := ledger_entries d @ [x]\<rparr>"

definition update_balance :: "nat \<Rightarrow> rat \<Rightarrow> db \<Rightarrow> db" where
  "update_balance i b d =
     d\<lparr>accounts := map (\<lambda>a. if acc_id a = i then a\<lparr>balance := b\<rparr> else a) (accounts d)\<rparr>"

definition update_status :: "nat \<Rightarrow> string \<Rightarrow> db \<Rightarrow> db" where
  "update_status i s d =
     d\<lparr>transactions :=
         map (\<lambda>t. if tx_id t = i then t\<lparr>tx_status := s\<rparr> else t) (transactions d)\<rparr>"

text \<open>\<open>transactions.transaction_ref\<close> is declared \<open>UNIQUE\<close>: a second row with a reference
  already present is rejected.\<close>

definition ref_taken :: "string \<Rightarrow> db \<Rightarrow> bool" where
  "ref_taken r d = (r \<in> set (map tx_transaction_ref (transactions d)))"

record transfer_result =
  transactionRef :: string
  fromNewBalance :: rat
  toNewBalance :: rat

text \<open>The statements of \<open>recordTransfer\<close> after both balances are computed (lines 91 to 170).\<close>

definition transfer_writes ::
  "env \<Rightarrow> string \<Rightarrow> account \<Rightarrow> account \<Rightarrow> rat \<Rightarrow> rat \<Rightarrow> rat \<Rightarrow> conn
     \<Rightarrow> (error + transfer_result) \<times> conn" where
  "transfer_writes e ref fromAccount toAccount amount fromNew toNew c0 =
     (if fails e InsertTransaction \<or> ref_taken ref (inside c0) then (Inl DbError, c0)
      else
        let txn = \<lparr>tx_id = fresh_id (map tx_id (transactions (inside c0))),
                   tx_transaction_ref = ref, tx_type = ''transfer'',
                   tx_from_account_id = Some (acc_id fromAccount),
                   tx_to_account_id = Some (acc_id toAccount),
                   tx_amount = amount, tx_status = ''pending'',
                   tx_created_at = now e\<rparr>;
            c1 = trx_write (insert_transaction txn) c0
        in
        if fails e InsertDebit then (Inl DbError, c1)
        else
          let c2 = trx_write (insert_ledger_entry
                     \<lparr>le_transaction_ref = ref, le_account_id = acc_id fromAccount,
                      le_entry_type = Debit, le_amount = amount,
                      le_balance_after = fromNew, le_created_at = now e\<rparr>) c1
          in
          if fails e InsertCredit then (Inl DbError, c2)
          else
            let c3 = trx_write (insert_ledger_entry
                       \<lparr>le_transaction_ref = ref, le_account_id = acc_id toAccount,
                        le_entry_type = Credit, le_amount = amount,
                        le_balance_after = toNew, le_created_at = now e\<rparr>) c2
            in
            if fails e UpdateFromBalance then (Inl DbError, c3)
            else
              let c4 = trx_write (update_balance (acc_id fromAccount) fromNew) c3 in
              if fails e UpdateToBalance then (Inl DbError, c4)
              else
                let c5 = trx_write (update_balance (acc_id toAccount) toNew) c4 in
                if fails e CompleteTransaction then (Inl DbError, c5)
                else
                  let c6 = trx_write (update_status (tx_id txn) ''completed'') c5 in
                  (Inr \<lparr>transactionRef = ref, fromNewBalance = fromNew,
                        toNewBalance = toNew\<rparr>, c6))"

text \<open>The checks made on the two locked rows (lines 73 to 89), then the writes.\<close>

definition transfer_locked ::
  "env \<Rightarrow> string \<Rightarrow> account \<Rightarrow> account \<Rightarrow> rat \<Rightarrow> account option \<Rightarrow> account option
     \<Rightarrow> conn \<Rightarrow> (error + transfer_result) \<times> conn" where
  "transfer_locked e ref fromAccount toAccount amount lockedFrom lockedTo c =
     (case lockedFrom of
        None \<Rightarrow> (Inl TypeError, c)
      | Some lockedFromAccount \<Rightarrow>
          if balance lockedFromAccount < amount then (Inl InsufficientBalance, c)
          else if status lockedFromAccount \<noteq> ''active'' then (Inl SourceNotActive, c)
          else
            (case lockedTo of
               None \<Rightarrow> (Inl TypeError, c)
             | Some lockedToAccount \<Rightarrow>
                 if status lockedToAccount \<noteq> ''active'' then (Inl DestinationNotActive, c)
                 else
                   transfer_writes e ref fromAccount toAccount amount
                     (balance lockedFromAccount - amount)
                     (balance lockedToAccount + amount) c))"

text \<open>The callback handed to \<open>knex.transaction\<close>: the accounts are looked up (and created)
  on \<open>knex\<close>, everything else runs on \<open>trx\<close>.\<close>

definition transfer_callback ::
  "env \<Rightarrow> nat \<Rightarrow> nat \<Rightarrow> rat \<Rightarrow> conn \<Rightarrow> (error + transfer_result) \<times> conn" where
  "transfer_callback e fromUserId toUserId amount c0 =
     (let transactionRef = generateTRN e in
      case getOrCreateAccount e fromUserId ''customer_wallet'' c0 of
        (Inl er, c1) \<Rightarrow> (Inl er, c1)
      | (Inr fromAccount, c1) \<Rightarrow>
          (case getOrCreateAccount e toUserId ''customer_wallet'' c1 of
             (Inl er, c2) \<Rightarrow> (Inl er, c2)
           | (Inr toAccount, c2) \<Rightarrow>
               (case select_for_update (acc_id fromAccount) c2 of
                  (lockedFrom, c3) \<Rightarrow>
                    (case select_for_update (acc_id toAccount) c3 of
                       (lockedTo, c4) \<Rightarrow>
                         transfer_locked e transactionRef fromAccount toAccount amount
                           lockedFrom lockedTo c4))))"

definition recordTransfer ::
  "env \<Rightarrow> nat \<Rightarrow> nat \<Rightarrow> rat \<Rightarrow> db \<Rightarrow> (error + transfer_result) \<times> db" where
  "recordTransfer e fromUserId toUserId amount d =
     knex_transaction (transfer_callback e fromUserId toUserId amount) d"


record deposit_result =
  dep_transactionRef :: string
  newBalance :: rat

text \<open>\<open>deposit\<close>: one locked row, one transaction row (inserted as \<open>'completed'\<close>), one credit
  entry, one balance update. The amount is not compared with anything.\<close>

definition deposit_callback ::
  "env \<Rightarrow> nat \<Rightarrow> rat \<Rightarrow> conn \<Rightarrow> (error + deposit_result) \<times> conn" where
  "deposit_callback e userId amount c0 =
     (let transactionRef = generateTRN e in
      case getOrCreateAccount e userId ''customer_wallet'' c0 of
        (Inl er, c1) \<Rightarrow> (Inl er, c1)
      | (Inr account, c1) \<Rightarrow>
          (case select_for_update (acc_id account) c1 of
             (None, c2) \<Rightarrow> (Inl TypeError, c2)
           | (Some lockedAccount, c2) \<Rightarrow>
               let newBal = balance lockedAccount + amount in
               if fails e InsertDepositTransaction \<or> ref_taken transactionRef (inside c2)
               then (Inl DbError, c2)
               else
                 let c3 = trx_write (insert_transaction
                            \<lparr>tx_id = fresh_id (map tx_id (transactions (inside c2))),
                             tx_transaction_ref = transactionRef, tx_type = ''deposit'',
                             tx_from_account_id = None,
                             tx_to_account_id = Some (acc_id account),
                             tx_amount = amount, tx_status = ''completed'',
                             tx_created_at = now e\<rparr>) c2
                 in
                 if fails e InsertDepositEntry then (Inl DbError, c3)
                 else
                   let c4 = trx_write (insert_ledger_entry
                              \<lparr>le_transaction_ref = transactionRef,
                               le_account_id = acc_id account,
                               le_entry_type = Credit, le_amount = amount,
                               le_balance_after = newBal, le_created_at = now e\<rparr>) c3
                   in
                   if fails e UpdateDepositBalance then (Inl DbError, c4)
                   else
                     let c5 = trx_write (update_balance (acc_id account) newBal) c4 in
                     (Inr \<lparr>dep_transactionRef = transactionRef, newBalance = newBal\<rparr>, c5)))"

definition deposit :: "env \<Rightarrow> nat \<Rightarrow> rat \<Rightarrow> db \<Rightarrow> (error + deposit_result) \<times> db" where
  "deposit e userId amount d = knex_transaction (deposit_callback e userId amount) d"

subsection \<open>Daily reconciliation report\<close>

record daily_report =
  transactionCount :: nat
  totalDebits :: rat
  totalCredits :: rat
  totalEntries :: nat
  isBalanced :: bool

definition startOfDay :: "int \<Rightarrow> int" where
  "startOfDay t = t - t mod 86400000000"

definition endOfDay :: "int \<Rightarrow> int" where
  "endOfDay t = startOfDay t + 86399999000"

definition in_window :: "int \<Rightarrow> int \<Rightarrow> bool" where
  "in_window date t = (startOfDay date \<le> t \<and> t \<le> endOfDay date)"

text \<open>SQL \<open>SUM\<close> over no rows is \<open>NULL\<close>.\<close>

definition sql_sum :: "rat list \<Rightarrow> rat option" where
  "sql_sum xs = (if xs = [] then None else Some (sum_list xs))"

definition window_entries :: "int \<Rightarrow> db \<Rightarrow> ledger_entry list" where
  "window_entries date d = filter (\<lambda>x. in_window date (le_created_at x)) (ledger_entries d)"

definition case_sum :: "entry_type \<Rightarrow> ledger_entry list \<Rightarrow> rat option" where
  "case_sum ty rows = sql_sum (map (\<lambda>x. if le_entry_type x = ty then le_amount x else 0) rows)"

text \<open>
  The report computes with JavaScript numbers, IEEE 754 doubles. A finite double is a
  rational number, and \<open>to_double\<close> rounds a rational to the nearest double, ties to the even
  significand (53 bits, least exponent -1022): it is what \<open>parseFloat\<close> makes of a decimal
  string and how the result of a subtraction is rounded. Magnitudes stay far below the
  largest double, so overflow to infinity is not modelled.
\<close>

function bit_length :: "int \<Rightarrow> int" where
  "bit_length n = (if n \<le> 0 then 0 else 1 + bit_length (n div 2))"
  by pat_completeness auto
termination
  by (relation "measure nat") auto

definition pow2 :: "int \<Rightarrow> rat" where
  "pow2 k = (if 0 \<le> k then 2 ^ nat k else 1 / 2 ^ nat (- k))"

text \<open>For positive \<open>x\<close>, the exponent \<open>k\<close> with \<open>2 ^ k \<le> x < 2 ^ (k + 1)\<close>.\<close>

definition binary_exponent :: "rat \<Rightarrow> int" where
  "binary_exponent x =
     (case quotient_of x of
        (p, q) \<Rightarrow>
          let k = bit_length p - bit_length q
          in if pow2 k \<le> x then k else k - 1)"

definition round_half_even :: "rat \<Rightarrow> int" where
  "round_half_even y =
     (let f = \<lfloor>y\<rfloor>; r = y - of_int f
      in if r < 1 / 2 then f
         else if 1 / 2 < r then f + 1
         else if even f then f else f + 1)"

definition to_double :: "rat \<Rightarrow> rat" where
  "to_double x =
     (if x = 0 then 0
      else
        let a = \<bar>x\<bar>;
            ulp = pow2 (max (binary_exponent a) (- 1022) - 52)
        in sgn x * of_int (round_half_even (a / ulp)) * ulp)"

text \<open>
  \<open>Math.abs(parseFloat(total_debits) - parseFloat(total_credits)) < 0.01\<close>.
  \<open>parseFloat(null)\<close> is \<open>NaN\<close>, and every comparison with \<open>NaN\<close> is false.
\<close>

definition books_balance :: "rat option \<Rightarrow> rat option \<Rightarrow> bool" where
  "books_balance total_debits total_credits =
     (case (total_debits, total_credits) of
        (Some a, Some b) \<Rightarrow> \<bar>to_double (to_double a - to_double b)\<bar> < to_double (1 / 100)
      | _ \<Rightarrow> False)"

text \<open>\<open>parseFloat(total || 0)\<close>.\<close>

definition or_zero :: "rat option \<Rightarrow> rat" where
  "or_zero v = (case v of None \<Rightarrow> 0 | Some a \<Rightarrow> to_double a)"

definition generateDailyReport :: "env \<Rightarrow> int \<Rightarrow> db \<Rightarrow> error + daily_report" where
  "generateDailyReport e date d =
     (if fails e SelectTransactions then Inl DbError
      else
        let txs = filter (\<lambda>t. in_window date (tx_created_at t) \<and> tx_status t = ''completed'')
                    (transactions d)
        in
        if fails e SelectTotals then Inl DbError
        else
          let rows = window_entries date d;
              total_debits = case_sum Debit rows;
              total_credits = case_sum Credit rows
          in Inr \<lparr>transactionCount = length txs,
                  totalDebits = or_zero total_debits,
                  totalCredits = or_zero total_credits,
                  totalEntries = length rows,
                  isBalanced = books_balance total_debits total_credits\<rparr>)"

subsection \<open>Quantities the properties are stated with\<close>

definition start_conn :: "db \<Rightarrow> conn" where
  "start_conn d = \<lparr>outside = d, inside = d, locked = []\<rparr>"

definition sum_amounts :: "entry_type \<Rightarrow> string \<Rightarrow> ledger_entry list \<Rightarrow> rat" where
  "sum_amounts ty r xs =
     sum_list (map le_amount
       (filter (\<lambda>x. le_entry_type x = ty \<and> le_transaction_ref x = r) xs))"

definition nonneg_balances :: "db \<Rightarrow> bool" where
  "nonneg_balances d = list_all (\<lambda>a. 0 \<le> balance a) (accounts d)"

definition any_write_fails :: "env \<Rightarrow> bool" where
  "any_write_fails e =
     (fails e InsertTransaction \<or> fails e InsertDebit \<or> fails e InsertCredit \<or>
      fails e UpdateFromBalance \<or> fails e UpdateToBalance \<or> fails e CompleteTransaction)"

subsection \<open>A small database to run the operations on\<close>

definition quiet_env :: env where
  "quiet_env = \<lparr>generateTRN = ''PK260103101500A1B2C3'', now = 1000, fails = (\<lambda>op. False)\<rparr>"

definition user_a :: account where
  "user_a = \<lparr>acc_id = 101, user_id = 1, account_type = ''customer_wallet'',
             balance = 10000, status = ''active''\<rparr>"

definition user_b :: account where
  "user_b = \<lparr>acc_id = 102, user_id = 2, account_type = ''customer_wallet'',
             balance = 500, status = ''active''\<rparr>"

definition two_users :: db where
  "two_users = \<lparr>accounts = [user_a, user_b], ledger_entries = [], transactions = []\<rparr>"

definition after_transfer :: db where
  "after_transfer =
     \<lparr>accounts = [user_a\<lparr>balance := 7000\<rparr>, user_b\<lparr>balance := 3500\<rparr>],
      ledger_entries =
        [\<lparr>le_transaction_ref = ''PK260103101500A1B2C3'', le_account_id = 101,
          le_entry_type = Debit, le_amount = 3000, le_balance_after = 7000,
          le_created_at = 1000\<rparr>,
         \<lparr>le_transaction_ref = ''PK260103101500A1B2C3'', le_account_id = 102,
          le_entry_type = Credit, le_amount = 3000, le_balance_after = 3500,
          le_created_at = 1000\<rparr>],
      transactions =
        [\<lparr>tx_id = 1, tx_transaction_ref = ''PK260103101500A1B2C3'',
          tx_type = ''transfer'', tx_from_account_id = Some 101,
          tx_to_account_id = Some 102, tx_amount = 3000,
          tx_status = ''completed'', tx_created_at = 1000\<rparr>]\<rparr>"

definition late_failure_env :: env where
  "late_failure_env = quiet_env\<lparr>fails := (\<lambda>op. op = UpdateToBalance)\<rparr>"

definition user_c :: account where
  "user_c = \<lparr>acc_id = 103, user_id = 3, account_type = ''customer_wallet'',
             balance = 0, status = ''active''\<rparr>"

definition two_users_and_c :: db where
  "two_users_and_c = two_users\<lparr>accounts := [user_a, user_b, user_c]\<rparr>"

definition window_total :: "entry_type \<Rightarrow> int \<Rightarrow> db \<Rightarrow> rat" where
  "window_total ty date d =
     sum_list (map le_amount (filter (\<lambda>x. le_entry_type x = ty) (window_entries date d)))"

definition lone_debit :: db where
  "lone_debit = two_users\<lparr>ledger_entries :=
     [\<lparr>le_transaction_ref = ''PK260103101500A1B2C3'', le_account_id = 101,
       le_entry_type = Debit, le_amount = 100, le_balance_after = 9900,
       le_created_at = 1000\<rparr>]\<rparr>"

text \<open>A day with a debit of 0.03 and a credit of 0.02.\<close>

definition off_by_a_cent :: db where
  "off_by_a_cent = two_users\<lparr>ledger_entries :=
     [\<lparr>le_transaction_ref = ''PK260103101500A1B2C3'', le_account_id = 101,
       le_entry_type = Debit, le_amount = 3 / 100, le_balance_after = 9999 + 97 / 100,
       le_created_at = 1000\<rparr>,
      \<lparr>le_transaction_ref = ''PK260103101500A1B2C3'', le_account_id = 102,
       le_entry_type = Credit, le_amount = 2 / 100, le_balance_after = 500 + 2 / 100,
       le_created_at = 1000\<rparr>]\<rparr>"

section \<open>Limit tracker (services/kycLimitsService.js)\<close>

text \<open>
  The calendar fields a JavaScript \<open>Date\<close> answers with in local time: \<open>getFullYear\<close>,
  \<open>getMonth\<close> (0 to 11) and \<open>getDate\<close> (the day of the month, 1 to 31).
\<close>

record js_date =
  getFullYear :: int
  getMonth :: nat
  getDate :: nat

record user_limits =
  kyc_level :: nat
  daily_limit :: rat
  monthly_limit :: rat
  per_transaction_limit :: rat
  daily_spent :: rat
  monthly_spent :: rat
  daily_reset_at :: js_date
  monthly_reset_at :: js_date

datatype denial =
    KycRequired
  | PerTransactionLimit
  | DailyLimit rat       \<comment> \<open>carries \<open>remainingDaily\<close>\<close>
  | MonthlyLimit rat     \<comment> \<open>carries \<open>remainingMonthly\<close>\<close>

record limit_check =
  allowed :: bool
  reason :: "denial option"
  spent_daily :: rat
  spent_monthly :: rat

text \<open>
  \<open>checkTransactionLimits\<close> on the row of one user (the row exists once
  \<open>initialize_user_limits\<close> has run). The first component of the result is what the
  caller gets, the second is the row as the two \<open>UPDATE\<close> statements leave it. The local
  object \<open>userLimits\<close> has its counter zeroed; its reset time is only changed in the table.
\<close>

definition reset_daily :: "js_date \<Rightarrow> user_limits \<times> user_limits \<Rightarrow> user_limits \<times> user_limits" where
  "reset_daily today p =
     (case p of (stored, userLimits) \<Rightarrow>
        if getDate today \<noteq> getDate (daily_reset_at userLimits)
        then (stored\<lparr>daily_spent := 0, daily_reset_at := today\<rparr>, userLimits\<lparr>daily_spent := 0\<rparr>)
        else (stored, userLimits))"

definition reset_monthly :: "js_date \<Rightarrow> user_limits \<times> user_limits \<Rightarrow> user_limits \<times> user_limits" where
  "reset_monthly today p =
     (case p of (stored, userLimits) \<Rightarrow>
        if getMonth today \<noteq> getMonth (monthly_reset_at userLimits) \<or>
           getFullYear today \<noteq> getFullYear (monthly_reset_at userLimits)
        then (stored\<lparr>monthly_spent := 0, monthly_reset_at := today\<rparr>,
              userLimits\<lparr>monthly_spent := 0\<rparr>)
        else (stored, userLimits))"

definition limit_answer :: "bool \<Rightarrow> denial option \<Rightarrow> user_limits \<Rightarrow> limit_check" where
  "limit_answer ok why userLimits =
     \<lparr>allowed = ok, reason = why, spent_daily = daily_spent userLimits,
      spent_monthly = monthly_spent userLimits\<rparr>"

definition checkTransactionLimits ::
  "js_date \<Rightarrow> rat \<Rightarrow> user_limits \<Rightarrow> limit_check \<times> user_limits" where
  "checkTransactionLimits today amount row =
     (case reset_monthly today (reset_daily today (row, row)) of
        (stored, userLimits) \<Rightarrow>
          (if kyc_level userLimits = 0 then limit_answer False (Some KycRequired) userLimits
           else if amount > per_transaction_limit userLimits
           then limit_answer False (Some PerTransactionLimit) userLimits
           else if daily_spent userLimits + amount > daily_limit userLimits
           then limit_answer False
                  (Some (DailyLimit (daily_limit userLimits - daily_spent userLimits))) userLimits
           else if monthly_spent userLimits + amount > monthly_limit userLimits
           then limit_answer False
                  (Some (MonthlyLimit (monthly_limit userLimits - monthly_spent userLimits)))
                  userLimits
           else limit_answer True None userLimits,
           stored))"

text \<open>One calendar day strictly before another.\<close>

definition earlier_day :: "js_date \<Rightarrow> js_date \<Rightarrow> bool" where
  "earlier_day a b =
     (getFullYear a < getFullYear b \<or>
      (getFullYear a = getFullYear b \<and>
       (getMonth a < getMonth b \<or> (getMonth a = getMonth b \<and> getDate a < getDate b))))"

definition jan_15 :: js_date where
  "jan_15 = \<lparr>getFullYear = 2026, getMonth = 0, getDate = 15\<rparr>"

definition feb_15 :: js_date where
  "feb_15 = \<lparr>getFullYear = 2026, getMonth = 1, getDate = 15\<rparr>"

text \<open>A user at KYC level 1 who spent 20000 of the daily 25000 on 15 January.\<close>

definition spent_in_january :: user_limits where
  "spent_in_january =
     \<lparr>kyc_level = 1, daily_limit = 25000, monthly_limit = 200000,
      per_transaction_limit = 10000, daily_spent = 20000, monthly_spent = 20000,
      daily_reset_at = jan_15, monthly_reset_at = jan_15\<rparr>"

section \<open>Transaction monitoring (services/transactionMonitoringService.js)\<close>

text \<open>
  An alert is kept with the two fields every decision reads, \<open>type\<close> and \<open>severity\<close>
  (strings in the code). The thresholds are those of \<open>loadMonitoringRules\<close>.
\<close>

record alert =
  alert_type :: string
  severity :: string

record monitoring_rules =
  largeTransaction_personal :: rat
  largeTransaction_business :: rat
  ctr_threshold :: rat
  velocity_hourly_count :: nat
  velocity_hourly_amount :: rat
  velocity_daily_count :: nat
  velocity_daily_amount :: rat
  structuring_threshold :: rat
  structuring_minTransactions :: nat
  dormancy_inactivePeriod :: int
  dormancy_suspiciousAmount :: rat

definition loadMonitoringRules :: monitoring_rules where
  "loadMonitoringRules =
     \<lparr>largeTransaction_personal = 500000, largeTransaction_business = 2000000,
      ctr_threshold = 2000000,
      velocity_hourly_count = 10, velocity_hourly_amount = 200000,
      velocity_daily_count = 50, velocity_daily_amount = 1000000,
      structuring_threshold = 490000, structuring_minTransactions = 3,
      dormancy_inactivePeriod = 90, dormancy_suspiciousAmount = 100000\<rparr>"

text \<open>The transaction handed to \<open>monitorTransaction\<close>; \<open>m_hour\<close> is the local hour of its
  timestamp.\<close>

record monitored =
  m_transactionRef :: string
  m_userId :: nat
  m_amount :: rat
  m_hour :: nat
  receiver_name :: "string option"
  country :: "string option"

datatype mon_op =
    QueryRiskProfile | InsertCTR | QueryHourly | QueryDaily | QueryStructuring
  | QueryRapid | QueryRound | QueryDormant | QuerySanctions | QueryPEP
  | InsertSTR | NotifyOfficer | QueryComplianceTeam | NotifyCompliance | InsertAlert
  | InsertBlocked | NotifyUser | InsertMonitoringLog | InsertMonitoringError

text \<open>
  What the database and the notification service answer during one call: which calls
  throw, and the rows the queries return.
\<close>

record mon_env =
  mfails :: "mon_op \<Rightarrow> bool"
  risk_profile_type :: "string option"
  hourly_stats :: "nat \<times> rat"
  daily_stats :: "nat \<times> rat"
  similar_txns :: nat
  rapid_movement :: "nat \<times> nat"
  round_amount_txns :: nat
  days_since_last :: "int option"
  sanctions_rows :: "string \<Rightarrow> bool"
  pep_rows :: bool
  compliance_team :: "nat list"
  compliance_officer :: nat

text \<open>The tables the service writes, and the notifications sent.\<close>

record mon_db =
  ctr_reports :: "string list"
  str_reports :: "string list"
  notification_log :: "(nat \<times> string) list"
  monitoring_alerts :: "(string \<times> alert) list"
  blocked_transactions :: "(string \<times> alert list) list"
  monitoring_logs :: "(string \<times> nat) list"
  monitoring_errors :: "string list"

type_synonym 'a mon = "mon_db \<Rightarrow> (error + 'a) \<times> mon_db"

definition mreturn :: "'a \<Rightarrow> 'a mon" where
  "mreturn v s = (Inr v, s)"

definition mbind :: "'a mon \<Rightarrow> ('a \<Rightarrow> 'b mon) \<Rightarrow> 'b mon" where
  "mbind m f s = (case m s of (Inl er, s') \<Rightarrow> (Inl er, s') | (Inr v, s') \<Rightarrow> f v s')"

definition mquery :: "mon_env \<Rightarrow> mon_op \<Rightarrow> 'a \<Rightarrow> 'a mon" where
  "mquery e op rows s = (if mfails e op then (Inl DbError, s) else (Inr rows, s))"

definition mwrite :: "mon_env \<Rightarrow> mon_op \<Rightarrow> (mon_db \<Rightarrow> mon_db) \<Rightarrow> unit mon" where
  "mwrite e op f s = (if mfails e op then (Inl DbError, s) else (Inr (), f s))"

definition sendNotification :: "mon_env \<Rightarrow> mon_op \<Rightarrow> nat \<Rightarrow> string \<Rightarrow> unit mon" where
  "sendNotification e op userId title =
     mwrite e op (\<lambda>s. s\<lparr>notification_log := notification_log s @ [(userId, title)]\<rparr>)"

definition getCustomerRiskProfile :: "mon_env \<Rightarrow> string mon" where
  "getCustomerRiskProfile e =
     mbind (mquery e QueryRiskProfile (risk_profile_type e))
       (\<lambda>profile. mreturn (case profile of None \<Rightarrow> ''personal'' | Some ty \<Rightarrow> ty))"

definition generateCTR :: "mon_env \<Rightarrow> monitored \<Rightarrow> unit mon" where
  "generateCTR e t =
     mwrite e InsertCTR (\<lambda>s. s\<lparr>ctr_reports := ctr_reports s @ [m_transactionRef t]\<rparr>)"

definition account_threshold :: "string \<Rightarrow> rat" where
  "account_threshold riskProfile_type =
     (if riskProfile_type = ''business''
      then largeTransaction_business loadMonitoringRules
      else largeTransaction_personal loadMonitoringRules)"

definition checkTransactionAmount :: "mon_env \<Rightarrow> monitored \<Rightarrow> string \<Rightarrow> alert option mon" where
  "checkTransactionAmount e t riskProfile_type =
     (let amount = m_amount t;
          threshold = account_threshold riskProfile_type
      in
      if amount \<ge> ctr_threshold loadMonitoringRules then
        mbind (generateCTR e t)
          (\<lambda>_. mreturn (Some \<lparr>alert_type = ''CTR_REQUIRED'', severity = ''HIGH''\<rparr>))
      else if amount \<ge> threshold then
        mreturn (Some \<lparr>alert_type = ''LARGE_TRANSACTION'', severity = ''MEDIUM''\<rparr>)
      else mreturn None)"

definition checkVelocity :: "mon_env \<Rightarrow> alert option mon" where
  "checkVelocity e =
     mbind (mquery e QueryHourly (hourly_stats e)) (\<lambda>hourlyStats.
       if fst hourlyStats > velocity_hourly_count loadMonitoringRules \<or>
          snd hourlyStats > velocity_hourly_amount loadMonitoringRules
       then mreturn (Some \<lparr>alert_type = ''VELOCITY_HOURLY'', severity = ''HIGH''\<rparr>)
       else
         mbind (mquery e QueryDaily (daily_stats e)) (\<lambda>dailyStats.
           if fst dailyStats > velocity_daily_count loadMonitoringRules \<or>
              snd dailyStats > velocity_daily_amount loadMonitoringRules
           then mreturn (Some \<lparr>alert_type = ''VELOCITY_DAILY'', severity = ''MEDIUM''\<rparr>)
           else mreturn None))"

definition detectStructuring :: "mon_env \<Rightarrow> monitored \<Rightarrow> alert option mon" where
  "detectStructuring e t =
     (let amount = m_amount t in
      if amount \<ge> structuring_threshold loadMonitoringRules \<and>
         amount < largeTransaction_personal loadMonitoringRules
      then
        mbind (mquery e QueryStructuring (similar_txns e)) (\<lambda>count.
          if count \<ge> structuring_minTransactions loadMonitoringRules
          then mreturn (Some \<lparr>alert_type = ''STRUCTURING'', severity = ''CRITICAL''\<rparr>)
          else mreturn None)
      else mreturn None)"

definition round_amount :: "rat \<Rightarrow> bool" where
  "round_amount a = (of_int \<lfloor>a / 10000\<rfloor> = a / 10000 \<and> a \<ge> 50000)"

definition detectSuspiciousPatterns :: "mon_env \<Rightarrow> monitored \<Rightarrow> alert list mon" where
  "detectSuspiciousPatterns e t =
     mbind (mquery e QueryRapid (rapid_movement e)) (\<lambda>rapid.
       let deposits = fst rapid; withdrawals = snd rapid;
           alerts1 = (if deposits > 0 \<and> withdrawals > 0 \<and> deposits > 2 \<and> withdrawals > 2
                      then [\<lparr>alert_type = ''RAPID_MOVEMENT'', severity = ''HIGH''\<rparr>] else [])
       in
       mbind (if round_amount (m_amount t)
              then mbind (mquery e QueryRound (round_amount_txns e)) (\<lambda>count.
                     mreturn (if count \<ge> 3
                              then [\<lparr>alert_type = ''ROUND_AMOUNTS'', severity = ''MEDIUM''\<rparr>]
                              else []))
              else mreturn [])
         (\<lambda>alerts2.
            mreturn (alerts1 @ alerts2 @
              (if m_hour t \<le> 4
               then [\<lparr>alert_type = ''UNUSUAL_TIME'', severity = ''LOW''\<rparr>] else []))))"

definition checkDormantAccount :: "mon_env \<Rightarrow> monitored \<Rightarrow> alert option mon" where
  "checkDormantAccount e t =
     mbind (mquery e QueryDormant (days_since_last e)) (\<lambda>lastActivity.
       case lastActivity of
         None \<Rightarrow> mreturn None
       | Some daysSinceLastActivity \<Rightarrow>
           if daysSinceLastActivity \<ge> dormancy_inactivePeriod loadMonitoringRules \<and>
              m_amount t \<ge> dormancy_suspiciousAmount loadMonitoringRules
           then mreturn (Some \<lparr>alert_type = ''DORMANT_REACTIVATION'', severity = ''HIGH''\<rparr>)
           else mreturn None)"

definition checkSanctionsRealTime :: "mon_env \<Rightarrow> monitored \<Rightarrow> alert option mon" where
  "checkSanctionsRealTime e t =
     (case receiver_name t of
        None \<Rightarrow> mreturn None
      | Some name \<Rightarrow>
          if name = [] then mreturn None
          else
            mbind (mquery e QuerySanctions (sanctions_rows e name)) (\<lambda>hit.
              if hit
              then mreturn (Some \<lparr>alert_type = ''SANCTIONS_HIT'', severity = ''CRITICAL''\<rparr>)
              else mreturn None))"

definition highRiskCountries :: "string list" where
  "highRiskCountries =
     [''Iran'', ''North Korea'', ''Syria'', ''Afghanistan'',
      ''Yemen'', ''Somalia'', ''Libya'', ''Myanmar'']"

definition checkGeographicRisk :: "monitored \<Rightarrow> alert option mon" where
  "checkGeographicRisk t =
     (case country t of
        None \<Rightarrow> mreturn None
      | Some c \<Rightarrow>
          if c \<noteq> [] \<and> c \<in> set highRiskCountries
          then mreturn (Some \<lparr>alert_type = ''HIGH_RISK_GEOGRAPHY'', severity = ''HIGH''\<rparr>)
          else mreturn None)"

definition checkPEPTransaction :: "mon_env \<Rightarrow> monitored \<Rightarrow> alert option mon" where
  "checkPEPTransaction e t =
     mbind (mquery e QueryPEP (pep_rows e)) (\<lambda>pep.
       if pep \<and> m_amount t \<ge> 100000
       then mreturn (Some \<lparr>alert_type = ''PEP_TRANSACTION'', severity = ''MEDIUM''\<rparr>)
       else mreturn None)"

text \<open>\<open>if (x) alerts.push(x)\<close>.\<close>

definition push :: "alert option \<Rightarrow> alert list" where
  "push x = (case x of None \<Rightarrow> [] | Some a \<Rightarrow> [a])"

text \<open>The eight evaluators in the order of the code (lines 353 to 386).\<close>

definition evaluate_rules :: "mon_env \<Rightarrow> monitored \<Rightarrow> alert list mon" where
  "evaluate_rules e t =
     mbind (getCustomerRiskProfile e) (\<lambda>riskProfile.
     mbind (checkTransactionAmount e t riskProfile) (\<lambda>amountAlert.
     mbind (checkVelocity e) (\<lambda>velocityAlert.
     mbind (detectStructuring e t) (\<lambda>structuringAlert.
     mbind (detectSuspiciousPatterns e t) (\<lambda>patternAlerts.
     mbind (checkDormantAccount e t) (\<lambda>dormancyAlert.
     mbind (checkSanctionsRealTime e t) (\<lambda>sanctionsAlert.
     mbind (checkGeographicRisk t) (\<lambda>geoAlert.
     mbind (checkPEPTransaction e t) (\<lambda>pepAlert.
     mreturn (push amountAlert @ push velocityAlert @ push structuringAlert @
              patternAlerts @ push dormancyAlert @ push sanctionsAlert @
              push geoAlert @ push pepAlert))))))))))"

definition generateSTR :: "mon_env \<Rightarrow> monitored \<Rightarrow> unit mon" where
  "generateSTR e t =
     mbind (mwrite e InsertSTR (\<lambda>s. s\<lparr>str_reports := str_reports s @ [m_transactionRef t]\<rparr>))
       (\<lambda>_. sendNotification e NotifyOfficer (compliance_officer e)
               ''Critical Alert: STR Generated'')"

fun notify_members :: "mon_env \<Rightarrow> nat list \<Rightarrow> unit mon" where
  "notify_members e [] = mreturn ()"
| "notify_members e (member # members) =
     mbind (sendNotification e NotifyCompliance member ''Transaction Alert'')
       (\<lambda>_. notify_members e members)"

definition notifyComplianceTeam :: "mon_env \<Rightarrow> unit mon" where
  "notifyComplianceTeam e =
     mbind (mquery e QueryComplianceTeam (compliance_team e)) (notify_members e)"

definition saveAlert :: "mon_env \<Rightarrow> monitored \<Rightarrow> alert \<Rightarrow> unit mon" where
  "saveAlert e t a =
     mwrite e InsertAlert
       (\<lambda>s. s\<lparr>monitoring_alerts := monitoring_alerts s @ [(m_transactionRef t, a)]\<rparr>)"

fun save_alerts :: "mon_env \<Rightarrow> monitored \<Rightarrow> alert list \<Rightarrow> unit mon" where
  "save_alerts e t [] = mreturn ()"
| "save_alerts e t (a # as) = mbind (saveAlert e t a) (\<lambda>_. save_alerts e t as)"

definition processAlerts :: "mon_env \<Rightarrow> monitored \<Rightarrow> alert list \<Rightarrow> unit mon" where
  "processAlerts e t alerts =
     (let criticalAlerts = filter (\<lambda>a. severity a = ''CRITICAL'') alerts;
          highAlerts = filter (\<lambda>a. severity a = ''HIGH'') alerts
      in
      mbind (if criticalAlerts \<noteq> [] then generateSTR e t else mreturn ()) (\<lambda>_.
      mbind (if highAlerts \<noteq> [] then notifyComplianceTeam e else mreturn ()) (\<lambda>_.
      save_alerts e t alerts)))"

definition shouldBlockTransaction :: "alert list \<Rightarrow> bool" where
  "shouldBlockTransaction alerts =
     list_ex (\<lambda>a. severity a = ''CRITICAL'' \<and>
                  alert_type a \<in> set [''SANCTIONS_HIT'', ''STRUCTURING'', ''DECEASED'']) alerts"

definition blockTransaction :: "mon_env \<Rightarrow> monitored \<Rightarrow> alert list \<Rightarrow> unit mon" where
  "blockTransaction e t alerts =
     mbind (mwrite e InsertBlocked
              (\<lambda>s. s\<lparr>blocked_transactions :=
                        blocked_transactions s @ [(m_transactionRef t, alerts)]\<rparr>))
       (\<lambda>_. sendNotification e NotifyUser (m_userId t) ''Transaction Blocked'')"

definition saveMonitoringResult :: "mon_env \<Rightarrow> monitored \<Rightarrow> alert list \<Rightarrow> unit mon" where
  "saveMonitoringResult e t alerts =
     mwrite e InsertMonitoringLog
       (\<lambda>s. s\<lparr>monitoring_logs := monitoring_logs s @ [(m_transactionRef t, length alerts)]\<rparr>)"

definition logMonitoringError :: "mon_env \<Rightarrow> monitored \<Rightarrow> unit mon" where
  "logMonitoringError e t =
     mwrite e InsertMonitoringError
       (\<lambda>s. s\<lparr>monitoring_errors := monitoring_errors s @ [m_transactionRef t]\<rparr>)"

record monitoring_result =
  blocked :: bool
  alerts :: "alert list"
  error_flag :: bool

text \<open>Lines 388 to 403: what is done with the collected alerts.\<close>

definition decide :: "mon_env \<Rightarrow> monitored \<Rightarrow> alert list \<Rightarrow> monitoring_result mon" where
  "decide e t collected =
     (let save_and_pass =
            mbind (saveMonitoringResult e t collected)
              (\<lambda>_. mreturn \<lparr>blocked = False, alerts = collected, error_flag = False\<rparr>)
      in
      if collected \<noteq> [] then
        mbind (processAlerts e t collected) (\<lambda>_.
          if shouldBlockTransaction collected then
            mbind (blockTransaction e t collected)
              (\<lambda>_. mreturn \<lparr>blocked = True, alerts = collected, error_flag = False\<rparr>)
          else save_and_pass)
      else save_and_pass)"

text \<open>The body of the \<open>try\<close>, and the whole function with its \<open>catch\<close>.\<close>

definition monitor_try :: "mon_env \<Rightarrow> monitored \<Rightarrow> monitoring_result mon" where
  "monitor_try e t = mbind (evaluate_rules e t) (decide e t)"

definition monitorTransaction :: "mon_env \<Rightarrow> monitored \<Rightarrow> monitoring_result mon" where
  "monitorTransaction e t s =
     (case monitor_try e t s of
        (Inr r, s') \<Rightarrow> (Inr r, s')
      | (Inl er, s') \<Rightarrow>
          mbind (logMonitoringError e t)
            (\<lambda>_. mreturn \<lparr>blocked = False, alerts = [], error_flag = True\<rparr>) s')"

subsection \<open>Transactions and surroundings to run the monitor on\<close>

text \<open>Two states of the tables that differ at most in the currency transaction reports.\<close>

definition only_ctr :: "mon_db \<Rightarrow> mon_db \<Rightarrow> bool" where
  "only_ctr s s' = (s' = s\<lparr>ctr_reports := ctr_reports s'\<rparr>)"

definition empty_mon_db :: mon_db where
  "empty_mon_db =
     \<lparr>ctr_reports = [], str_reports = [], notification_log = [], monitoring_alerts = [],
      blocked_transactions = [], monitoring_logs = [], monitoring_errors = []\<rparr>"

definition calm_env :: mon_env where
  "calm_env =
     \<lparr>mfails = (\<lambda>op. False), risk_profile_type = None, hourly_stats = (1, 1000),
      daily_stats = (2, 5000), similar_txns = 0, rapid_movement = (1, 0),
      round_amount_txns = 0, days_since_last = Some 3, sanctions_rows = (\<lambda>name. False),
      pep_rows = False, compliance_team = [900], compliance_officer = 901\<rparr>"

definition plain_transfer :: monitored where
  "plain_transfer =
     \<lparr>m_transactionRef = ''TXN1'', m_userId = 1, m_amount = 3000, m_hour = 11,
      receiver_name = Some ''Bilal'', country = None\<rparr>"




definition large_transfer :: monitored where
  "large_transfer = plain_transfer\<lparr>m_amount := 2500000\<rparr>"

subsection \<open>The verdict of the monitor in terms of the calls that throw\<close>








section \<open>Properties of the ledger service\<close>

lemma outside_trx_write [simp]: "outside (trx_write f c) = outside c"
  by (simp add: trx_write_def)

lemma locked_trx_write [simp]: "locked (trx_write f c) = locked c"
  by (simp add: trx_write_def)

lemma inside_trx_write [simp]: "inside (trx_write f c) = f (inside c)"
  by (simp add: trx_write_def)

lemma transfer_writes_outside:
  "outside (snd (transfer_writes e r fa ta amt fn tn c)) = outside c"
  by (simp add: transfer_writes_def Let_def)

lemma transfer_writes_locked:
  "locked (snd (transfer_writes e r fa ta amt fn tn c)) = locked c"
  by (simp add: transfer_writes_def Let_def)

lemma transfer_locked_outside:
  "outside (snd (transfer_locked e r fa ta amt lf lt c)) = outside c"
  by (simp add: transfer_locked_def transfer_writes_outside split: option.splits)

lemma transfer_locked_locked:
  "locked (snd (transfer_locked e r fa ta amt lf lt c)) = locked c"
  by (simp add: transfer_locked_def transfer_writes_locked split: option.splits)

lemma transfer_writes_Inr:
  assumes "transfer_writes e r fa ta amt fn tn c = (Inr res, c')"
  shows "res = \<lparr>transactionRef = r, fromNewBalance = fn, toNewBalance = tn\<rparr>"
    and "ledger_entries (inside c') = ledger_entries (inside c) @
           [\<lparr>le_transaction_ref = r, le_account_id = acc_id fa, le_entry_type = Debit,
             le_amount = amt, le_balance_after = fn, le_created_at = now e\<rparr>,
            \<lparr>le_transaction_ref = r, le_account_id = acc_id ta, le_entry_type = Credit,
             le_amount = amt, le_balance_after = tn, le_created_at = now e\<rparr>]"
    and "accounts (inside c') =
           accounts (update_balance (acc_id ta) tn (update_balance (acc_id fa) fn (inside c)))"
    and "\<not> ref_taken r (inside c)"
  using assms
  by (auto simp add: transfer_writes_def Let_def insert_ledger_entry_def insert_transaction_def
      update_balance_def update_status_def split: if_splits)


lemma getOrCreateAccount_tables:
  assumes "getOrCreateAccount e u ty c = (res, c')"
  shows "ledger_entries (inside c') = ledger_entries (inside c)"
    and "transactions (inside c') = transactions (inside c)"
    and "ledger_entries (outside c') = ledger_entries (outside c)"
    and "transactions (outside c') = transactions (outside c)"
    and "locked c' = locked c"
  using assms
  by (auto simp add: getOrCreateAccount_def knex_write_def insert_account_def Let_def
      split: option.splits if_splits)

lemma getOrCreateAccount_accounts:
  assumes "getOrCreateAccount e u ty c = (res, c')"
  shows "\<exists>new. accounts (outside c') = accounts (outside c) @ new \<and>
               accounts (inside c') = accounts (inside c) @ new \<and>
               (\<forall>a\<in>set new. balance a = 0)"
  using assms
  by (auto simp add: getOrCreateAccount_def knex_write_def insert_account_def Let_def
      split: option.splits if_splits)

lemma select_for_update_conn:
  assumes "select_for_update i c = (row, c')"
  shows "inside c' = inside c" and "outside c' = outside c" and "locked c' = locked c @ [i]"
  using assms by (auto simp add: select_for_update_def)

lemma transfer_locked_Inr:
  assumes "transfer_locked e r fa ta amt lf lt c = (Inr res, c')"
  shows "\<exists>fn tn. transfer_writes e r fa ta amt fn tn c = (Inr res, c')"
  using assms
  by (auto simp add: transfer_locked_def split: option.splits if_splits)

lemma transfer_callback_Inr:
  assumes "transfer_callback e f t amt c0 = (Inr res, c')"
  shows "\<exists>fa ta c1 c2 c4 fn tn.
           getOrCreateAccount e f ''customer_wallet'' c0 = (Inr fa, c1) \<and>
           getOrCreateAccount e t ''customer_wallet'' c1 = (Inr ta, c2) \<and>
           inside c4 = inside c2 \<and> outside c4 = outside c2 \<and>
           transfer_writes e (generateTRN e) fa ta amt fn tn c4 = (Inr res, c')"
proof -
  obtain r1 c1 where g1: "getOrCreateAccount e f ''customer_wallet'' c0 = (r1, c1)"
    by (cases "getOrCreateAccount e f ''customer_wallet'' c0")
  obtain r2 c2 where g2: "getOrCreateAccount e t ''customer_wallet'' c1 = (r2, c2)"
    by (cases "getOrCreateAccount e t ''customer_wallet'' c1")
  from assms g1 obtain fa where r1: "r1 = Inr fa"
    by (cases r1) (auto simp add: transfer_callback_def)
  from assms g1 g2 r1 obtain ta where r2: "r2 = Inr ta"
    by (cases r2) (auto simp add: transfer_callback_def)
  obtain lf c3 where s1: "select_for_update (acc_id fa) c2 = (lf, c3)"
    by (cases "select_for_update (acc_id fa) c2")
  obtain lt c4 where s2: "select_for_update (acc_id ta) c3 = (lt, c4)"
    by (cases "select_for_update (acc_id ta) c3")
  from assms g1 g2 r1 r2 s1 s2
  have "transfer_locked e (generateTRN e) fa ta amt lf lt c4 = (Inr res, c')"
    by (simp add: transfer_callback_def)
  then obtain fn tn where
    w: "transfer_writes e (generateTRN e) fa ta amt fn tn c4 = (Inr res, c')"
    using transfer_locked_Inr by blast
  have "inside c4 = inside c2" "outside c4 = outside c2"
    using select_for_update_conn[OF s1] select_for_update_conn[OF s2] by simp_all
  with g1 g2 r1 r2 w show ?thesis by blast
qed

lemma sum_amounts_append:
  "sum_amounts ty r (xs @ ys) = sum_amounts ty r xs + sum_amounts ty r ys"
  by (simp add: sum_amounts_def)

lemma sum_amounts_fresh:
  "\<forall>x\<in>set xs. le_transaction_ref x \<noteq> r \<Longrightarrow> sum_amounts ty r xs = 0"
  by (induction xs) (auto simp add: sum_amounts_def)

lemma transfer_entries_parts:
  assumes "recordTransfer e fromUserId toUserId amount d = (Inr r, d')"
  shows "transactionRef r = generateTRN e"
    and "\<exists>fromAccount toAccount c1 c2.
           getOrCreateAccount e fromUserId ''customer_wallet'' (start_conn d)
             = (Inr fromAccount, c1) \<and>
           getOrCreateAccount e toUserId ''customer_wallet'' c1 = (Inr toAccount, c2) \<and>
           ledger_entries d' = ledger_entries d @
             [\<lparr>le_transaction_ref = transactionRef r, le_account_id = acc_id fromAccount,
               le_entry_type = Debit, le_amount = amount,
               le_balance_after = fromNewBalance r, le_created_at = now e\<rparr>,
              \<lparr>le_transaction_ref = transactionRef r, le_account_id = acc_id toAccount,
               le_entry_type = Credit, le_amount = amount,
               le_balance_after = toNewBalance r, le_created_at = now e\<rparr>]"
    and "sum_amounts Debit (transactionRef r)
           (drop (length (ledger_entries d)) (ledger_entries d')) = amount"
    and "sum_amounts Credit (transactionRef r)
           (drop (length (ledger_entries d)) (ledger_entries d')) = amount"
    and "(\<forall>x\<in>set (ledger_entries d). le_transaction_ref x \<noteq> generateTRN e) \<longrightarrow>
           sum_amounts Debit (transactionRef r) (ledger_entries d') = amount \<and>
           sum_amounts Credit (transactionRef r) (ledger_entries d') = amount"
proof -
  obtain c' where cb: "transfer_callback e fromUserId toUserId amount (start_conn d) = (Inr r, c')"
    and d': "d' = inside c'"
    using assms
    by (auto simp add: recordTransfer_def knex_transaction_def start_conn_def
        split: prod.splits sum.splits)
  from transfer_callback_Inr[OF cb] obtain fa ta c1 c2 c4 fn tn where
    g1: "getOrCreateAccount e fromUserId ''customer_wallet'' (start_conn d) = (Inr fa, c1)" and
    g2: "getOrCreateAccount e toUserId ''customer_wallet'' c1 = (Inr ta, c2)" and
    i4: "inside c4 = inside c2" and
    w: "transfer_writes e (generateTRN e) fa ta amount fn tn c4 = (Inr r, c')"
    by blast
  have l2: "ledger_entries (inside c2) = ledger_entries d"
    using getOrCreateAccount_tables(1)[OF g1] getOrCreateAccount_tables(1)[OF g2]
    by (simp add: start_conn_def)
  have r: "r = \<lparr>transactionRef = generateTRN e, fromNewBalance = fn, toNewBalance = tn\<rparr>"
    using transfer_writes_Inr(1)[OF w] .
  have le: "ledger_entries d' = ledger_entries d @
             [\<lparr>le_transaction_ref = transactionRef r, le_account_id = acc_id fa,
               le_entry_type = Debit, le_amount = amount,
               le_balance_after = fromNewBalance r, le_created_at = now e\<rparr>,
              \<lparr>le_transaction_ref = transactionRef r, le_account_id = acc_id ta,
               le_entry_type = Credit, le_amount = amount,
               le_balance_after = toNewBalance r, le_created_at = now e\<rparr>]"
    using transfer_writes_Inr(2)[OF w] d' i4 l2 r by simp
  show "transactionRef r = generateTRN e" using r by simp
  show "\<exists>fromAccount toAccount c1 c2.
           getOrCreateAccount e fromUserId ''customer_wallet'' (start_conn d)
             = (Inr fromAccount, c1) \<and>
           getOrCreateAccount e toUserId ''customer_wallet'' c1 = (Inr toAccount, c2) \<and>
           ledger_entries d' = ledger_entries d @
             [\<lparr>le_transaction_ref = transactionRef r, le_account_id = acc_id fromAccount,
               le_entry_type = Debit, le_amount = amount,
               le_balance_after = fromNewBalance r, le_created_at = now e\<rparr>,
              \<lparr>le_transaction_ref = transactionRef r, le_account_id = acc_id toAccount,
               le_entry_type = Credit, le_amount = amount,
               le_balance_after = toNewBalance r, le_created_at = now e\<rparr>]"
    using g1 g2 le by blast
  show dsum: "sum_amounts Debit (transactionRef r)
           (drop (length (ledger_entries d)) (ledger_entries d')) = amount"
    by (simp add: le sum_amounts_def)
  show csum: "sum_amounts Credit (transactionRef r)
           (drop (length (ledger_entries d)) (ledger_entries d')) = amount"
    by (simp add: le sum_amounts_def)
  show "(\<forall>x\<in>set (ledger_entries d). le_transaction_ref x \<noteq> generateTRN e) \<longrightarrow>
           sum_amounts Debit (transactionRef r) (ledger_entries d') = amount \<and>
           sum_amounts Credit (transactionRef r) (ledger_entries d') = amount"
  proof
    assume fresh: "\<forall>x\<in>set (ledger_entries d). le_transaction_ref x \<noteq> generateTRN e"
    have z: "sum_amounts ty (generateTRN e) (ledger_entries d) = 0" for ty
      using sum_amounts_fresh[OF fresh] .
    have tr: "transactionRef r = generateTRN e" using r by simp
    show "sum_amounts Debit (transactionRef r) (ledger_entries d') = amount \<and>
           sum_amounts Credit (transactionRef r) (ledger_entries d') = amount"
    proof -
      have "sum_amounts ty (generateTRN e) (ledger_entries d') =
            sum_amounts ty (generateTRN e) (drop (length (ledger_entries d)) (ledger_entries d'))"
        for ty
        using z[of ty] by (simp add: le sum_amounts_append)
      with dsum csum tr show ?thesis by simp
    qed
  qed
qed


text \<open>
  C1. A successful \<open>recordTransfer\<close> writes exactly two ledger entries, both carrying the
  generated reference: first a debit against the sender's account, then a credit against
  the receiver's account, each of the transferred amount. Among the entries written the
  debits and the credits of that reference both sum to the amount, and so do they over
  the whole ledger when no earlier entry carries the reference.
\<close>

theorem recordTransfer_two_entries:
  assumes "recordTransfer e fromUserId toUserId amount d = (Inr r, d')"
  shows "transactionRef r = generateTRN e \<and>
         (\<exists>fromAccount toAccount c1 c2.
           getOrCreateAccount e fromUserId ''customer_wallet'' (start_conn d)
             = (Inr fromAccount, c1) \<and>
           getOrCreateAccount e toUserId ''customer_wallet'' c1 = (Inr toAccount, c2) \<and>
           ledger_entries d' = ledger_entries d @
             [\<lparr>le_transaction_ref = transactionRef r, le_account_id = acc_id fromAccount,
               le_entry_type = Debit, le_amount = amount,
               le_balance_after = fromNewBalance r, le_created_at = now e\<rparr>,
              \<lparr>le_transaction_ref = transactionRef r, le_account_id = acc_id toAccount,
               le_entry_type = Credit, le_amount = amount,
               le_balance_after = toNewBalance r, le_created_at = now e\<rparr>]) \<and>
         sum_amounts Debit (transactionRef r)
           (drop (length (ledger_entries d)) (ledger_entries d')) = amount \<and>
         sum_amounts Credit (transactionRef r)
           (drop (length (ledger_entries d)) (ledger_entries d')) = amount \<and>
         ((\<forall>x\<in>set (ledger_entries d). le_transaction_ref x \<noteq> generateTRN e) \<longrightarrow>
           sum_amounts Debit (transactionRef r) (ledger_entries d') = amount \<and>
           sum_amounts Credit (transactionRef r) (ledger_entries d') = amount)"
  using transfer_entries_parts[OF assms] by (intro conjI)

text \<open>The transfer of 3000 from a balance of 10000 to a balance of 500.\<close>

theorem recordTransfer_two_entries_witness:
  "recordTransfer quiet_env 1 2 3000 two_users =
     (Inr \<lparr>transactionRef = ''PK260103101500A1B2C3'', fromNewBalance = 7000,
           toNewBalance = 3500\<rparr>, after_transfer) \<and>
   length (ledger_entries after_transfer) = 2 \<and>
   sum_amounts Debit ''PK260103101500A1B2C3'' (ledger_entries after_transfer) = 3000 \<and>
   sum_amounts Credit ''PK260103101500A1B2C3'' (ledger_entries after_transfer) = 3000"
proof -
  have run: "recordTransfer quiet_env 1 2 3000 two_users =
     (Inr \<lparr>transactionRef = ''PK260103101500A1B2C3'', fromNewBalance = 7000,
           toNewBalance = 3500\<rparr>, after_transfer)"
    by code_simp
  have fresh: "\<forall>x\<in>set (ledger_entries two_users).
                 le_transaction_ref x \<noteq> generateTRN quiet_env"
    by (simp add: two_users_def)
  have len: "length (ledger_entries after_transfer) = 2"
    by (simp add: after_transfer_def)
  have tr: "generateTRN quiet_env = ''PK260103101500A1B2C3''"
    by (simp add: quiet_env_def)
  from recordTransfer_two_entries[OF run] fresh
  have "sum_amounts Debit ''PK260103101500A1B2C3'' (ledger_entries after_transfer) = 3000 \<and>
        sum_amounts Credit ''PK260103101500A1B2C3'' (ledger_entries after_transfer) = 3000"
    by (simp add: tr)
  with len run show ?thesis
    by (intro conjI) simp_all
qed

lemma fold_max_ge: "a \<le> fold max xs (a::nat)"
proof (induction xs arbitrary: a)
  case Nil
  show ?case by simp
next
  case (Cons x xs)
  have "a \<le> max x a" by simp
  also have "\<dots> \<le> fold max xs (max x a)" by (rule Cons.IH)
  finally show ?case by simp
qed

lemma fold_max_mem: "x \<in> set xs \<Longrightarrow> x \<le> fold max xs (a::nat)"
proof (induction xs arbitrary: a)
  case Nil
  then show ?case by simp
next
  case (Cons y ys)
  show ?case
  proof (cases "x = y")
    case True
    have "x \<le> max y a" using True by simp
    also have "\<dots> \<le> fold max ys (max y a)" by (rule fold_max_ge)
    finally show ?thesis by simp
  next
    case False
    with Cons.prems have "x \<in> set ys" by simp
    from Cons.IH[OF this] show ?thesis by simp
  qed
qed

lemma fresh_id_notin: "fresh_id ids \<notin> set ids"
proof
  assume "fresh_id ids \<in> set ids"
  from fold_max_mem[OF this, of 0] show False by (simp add: fresh_id_def)
qed

lemma update_status_fresh:
  "transactions (update_status (fresh_id (map tx_id (transactions d))) s (insert_transaction t d))
     = transactions d @ [if tx_id t = fresh_id (map tx_id (transactions d))
                          then t\<lparr>tx_status := s\<rparr> else t]"
proof -
  have "map (\<lambda>t. if tx_id t = fresh_id (map tx_id (transactions d))
                  then t\<lparr>tx_status := s\<rparr> else t) (transactions d) = transactions d"
  proof (rule map_idI)
    fix x assume "x \<in> set (transactions d)"
    then have "tx_id x \<in> set (map tx_id (transactions d))" by simp
    with fresh_id_notin[of "map tx_id (transactions d)"]
    have "tx_id x \<noteq> fresh_id (map tx_id (transactions d))" by metis
    then show "(if tx_id x = fresh_id (map tx_id (transactions d))
                then x\<lparr>tx_status := s\<rparr> else x) = x" by simp
  qed
  then show ?thesis
    by (simp add: update_status_def insert_transaction_def)
qed

lemma transfer_writes_transactions:
  assumes "transfer_writes e r fa ta amt fn tn c = (Inr res, c')"
  shows "transactions (inside c') = transactions (inside c) @
           [\<lparr>tx_id = fresh_id (map tx_id (transactions (inside c))),
             tx_transaction_ref = r, tx_type = ''transfer'',
             tx_from_account_id = Some (acc_id fa), tx_to_account_id = Some (acc_id ta),
             tx_amount = amt, tx_status = ''completed'', tx_created_at = now e\<rparr>]"
proof -
  let ?txn = "\<lparr>tx_id = fresh_id (map tx_id (transactions (inside c))),
             tx_transaction_ref = r, tx_type = ''transfer'',
             tx_from_account_id = Some (acc_id fa), tx_to_account_id = Some (acc_id ta),
             tx_amount = amt, tx_status = ''pending'', tx_created_at = now e\<rparr>"
  from assms have "transactions (inside c') =
     transactions (update_status (fresh_id (map tx_id (transactions (inside c)))) ''completed''
        (insert_transaction ?txn (inside c)))"
    by (auto simp add: transfer_writes_def Let_def insert_ledger_entry_def
        update_balance_def update_status_def insert_transaction_def split: if_splits)
  then show ?thesis
    by (simp add: update_status_fresh)
qed

lemma transfer_callback_outside:
  assumes "transfer_callback e f t amt c0 = (res, c')"
  shows "ledger_entries (outside c') = ledger_entries (outside c0) \<and>
         transactions (outside c') = transactions (outside c0) \<and>
         (\<exists>new. accounts (outside c') = accounts (outside c0) @ new \<and>
                (\<forall>a\<in>set new. balance a = 0))"
proof -
  obtain r1 c1 where g1: "getOrCreateAccount e f ''customer_wallet'' c0 = (r1, c1)"
    by (cases "getOrCreateAccount e f ''customer_wallet'' c0")
  obtain r2 c2 where g2: "getOrCreateAccount e t ''customer_wallet'' c1 = (r2, c2)"
    by (cases "getOrCreateAccount e t ''customer_wallet'' c1")
  from getOrCreateAccount_accounts[OF g1] obtain n1 where
    n1: "accounts (outside c1) = accounts (outside c0) @ n1" "\<forall>a\<in>set n1. balance a = 0"
    by blast
  from getOrCreateAccount_accounts[OF g2] obtain n2 where
    n2: "accounts (outside c2) = accounts (outside c1) @ n2" "\<forall>a\<in>set n2. balance a = 0"
    by blast
  have t1: "ledger_entries (outside c1) = ledger_entries (outside c0)"
           "transactions (outside c1) = transactions (outside c0)"
    using getOrCreateAccount_tables[OF g1] by simp_all
  have t2: "ledger_entries (outside c2) = ledger_entries (outside c0)"
           "transactions (outside c2) = transactions (outside c0)"
    using getOrCreateAccount_tables[OF g2] t1 by simp_all
  have a2: "accounts (outside c2) = accounts (outside c0) @ (n1 @ n2)"
           "\<forall>a\<in>set (n1 @ n2). balance a = 0"
    using n1 n2 by auto
  have "outside c' = outside c0 \<or> outside c' = outside c1 \<or> outside c' = outside c2"
    using assms g1 g2
    by (auto simp add: transfer_callback_def select_for_update_def transfer_locked_outside
        split: sum.splits prod.splits dest: arg_cong[where f="\<lambda>p. outside (snd p)"])
  then show ?thesis
  proof (elim disjE)
    assume "outside c' = outside c0"
    then show ?thesis by simp
  next
    assume "outside c' = outside c1"
    with t1 n1 show ?thesis by simp
  next
    assume "outside c' = outside c2"
    with t2 a2 show ?thesis by (intro conjI exI[of _ "n1 @ n2"]) simp_all
  qed
qed


lemma transfer_callback_Inr_full:
  assumes "transfer_callback e f t amt c0 = (Inr res, c')"
  shows "\<exists>fa ta c1 c2 c4.
           getOrCreateAccount e f ''customer_wallet'' c0 = (Inr fa, c1) \<and>
           getOrCreateAccount e t ''customer_wallet'' c1 = (Inr ta, c2) \<and>
           inside c4 = inside c2 \<and> outside c4 = outside c2 \<and>
           transfer_writes e (generateTRN e) fa ta amt
             (fromNewBalance res) (toNewBalance res) c4 = (Inr res, c')"
proof -
  from transfer_callback_Inr[OF assms] obtain fa ta c1 c2 c4 fn tn where
    g: "getOrCreateAccount e f ''customer_wallet'' c0 = (Inr fa, c1)"
       "getOrCreateAccount e t ''customer_wallet'' c1 = (Inr ta, c2)"
       "inside c4 = inside c2" "outside c4 = outside c2" and
    w: "transfer_writes e (generateTRN e) fa ta amt fn tn c4 = (Inr res, c')"
    by blast
  from transfer_writes_Inr(1)[OF w] have "fn = fromNewBalance res" "tn = toNewBalance res"
    by simp_all
  with g w show ?thesis by blast
qed

lemma find_append_None: "List.find P (xs @ ys) = None \<Longrightarrow> List.find P xs = None"
  by (auto simp add: find_None_iff)

lemma getOrCreateAccount_new_rows:
  assumes "getOrCreateAccount e u ty c = (res, c')"
  shows "\<exists>new. accounts (outside c') = accounts (outside c) @ new \<and>
               accounts (inside c') = accounts (inside c) @ new \<and>
               (\<forall>a\<in>set new. balance a = 0 \<and> user_id a = u \<and> account_type a = ty \<and>
                              find_account (outside c) u ty = None) \<and>
               (find_account (outside c) u ty \<noteq> None \<longrightarrow> c' = c)"
  using assms
  by (auto simp add: getOrCreateAccount_def knex_write_def insert_account_def Let_def
      split: option.splits if_splits)

lemma find_account_prefix:
  "accounts d' = accounts d @ new \<Longrightarrow> find_account d' u ty = None \<Longrightarrow> find_account d u ty = None"
  by (auto simp add: find_account_def find_None_iff)

lemma find_account_extend:
  "accounts d' = accounts d @ new \<Longrightarrow> find_account d u ty \<noteq> None
     \<Longrightarrow> find_account d' u ty \<noteq> None"
  by (auto simp add: find_account_def find_None_iff)

lemma transfer_callback_rollback:
  assumes "transfer_callback e f t amt (start_conn d) = (res, c')"
  shows "ledger_entries (outside c') = ledger_entries d \<and>
         transactions (outside c') = transactions d \<and>
         (\<exists>new. accounts (outside c') = accounts d @ new \<and>
                (\<forall>a\<in>set new. balance a = 0 \<and> account_type a = ''customer_wallet'' \<and>
                   (user_id a = f \<or> user_id a = t) \<and>
                   find_account d (user_id a) ''customer_wallet'' = None)) \<and>
         (find_account d f ''customer_wallet'' \<noteq> None \<and>
          find_account d t ''customer_wallet'' \<noteq> None \<longrightarrow> outside c' = d)"
proof -
  let ?c0 = "start_conn d"
  have o0: "outside ?c0 = d" by (simp add: start_conn_def)
  obtain r1 c1 where g1: "getOrCreateAccount e f ''customer_wallet'' ?c0 = (r1, c1)"
    by (cases "getOrCreateAccount e f ''customer_wallet'' ?c0")
  obtain r2 c2 where g2: "getOrCreateAccount e t ''customer_wallet'' c1 = (r2, c2)"
    by (cases "getOrCreateAccount e t ''customer_wallet'' c1")
  from getOrCreateAccount_new_rows[OF g1] o0 obtain n1 where
    n1: "accounts (outside c1) = accounts d @ n1"
        "\<forall>a\<in>set n1. balance a = 0 \<and> user_id a = f \<and> account_type a = ''customer_wallet'' \<and>
                     find_account d f ''customer_wallet'' = None"
        "find_account d f ''customer_wallet'' \<noteq> None \<longrightarrow> c1 = ?c0"
    by auto
  from getOrCreateAccount_new_rows[OF g2] obtain n2 where
    n2: "accounts (outside c2) = accounts (outside c1) @ n2"
        "\<forall>a\<in>set n2. balance a = 0 \<and> user_id a = t \<and> account_type a = ''customer_wallet'' \<and>
                     find_account (outside c1) t ''customer_wallet'' = None"
        "find_account (outside c1) t ''customer_wallet'' \<noteq> None \<longrightarrow> c2 = c1"
    by auto
  have n2': "\<forall>a\<in>set n2. find_account d t ''customer_wallet'' = None"
    using n2(2) find_account_prefix[OF n1(1)] by blast
  have t1: "ledger_entries (outside c1) = ledger_entries d"
           "transactions (outside c1) = transactions d"
    using getOrCreateAccount_tables[OF g1] o0 by simp_all
  have t2: "ledger_entries (outside c2) = ledger_entries d"
           "transactions (outside c2) = transactions d"
    using getOrCreateAccount_tables[OF g2] t1 by simp_all
  have a2: "accounts (outside c2) = accounts d @ (n1 @ n2)"
    using n1(1) n2(1) by simp
  have both: "find_account d f ''customer_wallet'' \<noteq> None \<and>
          find_account d t ''customer_wallet'' \<noteq> None \<longrightarrow> c1 = ?c0 \<and> c2 = ?c0"
    using n1(3) n2(3) o0 by auto
  have cases: "outside c' = outside ?c0 \<or> outside c' = outside c1 \<or> outside c' = outside c2"
    using assms g1 g2
    by (auto simp add: transfer_callback_def select_for_update_def transfer_locked_outside
        split: sum.splits prod.splits dest: arg_cong[where f="\<lambda>p. outside (snd p)"])
  have last: "find_account d f ''customer_wallet'' \<noteq> None \<and>
          find_account d t ''customer_wallet'' \<noteq> None \<longrightarrow> outside c' = d"
    using cases both o0 by auto
  have rows1: "\<forall>a\<in>set n1. balance a = 0 \<and> account_type a = ''customer_wallet'' \<and>
                   (user_id a = f \<or> user_id a = t) \<and>
                   find_account d (user_id a) ''customer_wallet'' = None"
    using n1(2) by auto
  have rows2: "\<forall>a\<in>set n2. balance a = 0 \<and> account_type a = ''customer_wallet'' \<and>
                   (user_id a = f \<or> user_id a = t) \<and>
                   find_account d (user_id a) ''customer_wallet'' = None"
    using n2(2) n2' by auto
  have rows12: "\<forall>a\<in>set (n1 @ n2). balance a = 0 \<and> account_type a = ''customer_wallet'' \<and>
                   (user_id a = f \<or> user_id a = t) \<and>
                   find_account d (user_id a) ''customer_wallet'' = None"
    using rows1 rows2 by auto
  from cases show ?thesis
  proof (elim disjE)
    assume "outside c' = outside ?c0"
    with o0 last show ?thesis by (intro conjI exI[of _ "[]"]) simp_all
  next
    assume "outside c' = outside c1"
    with t1 n1(1) rows1 last show ?thesis by (intro conjI exI[of _ n1]) simp_all
  next
    assume "outside c' = outside c2"
    with t2 a2 rows12 last show ?thesis by (intro conjI exI[of _ "n1 @ n2"]) simp_all
  qed
qed


text \<open>
  C2, as amended. None of the five writes of \<open>recordTransfer\<close> (two ledger entries, two
  balance updates, the completion of the transaction row) survives a failed call: for
  whatever reason the call fails (insufficient balance, an inactive account, a rejected
  statement), the ledger entries and the transaction rows are those from before the call
  and every account row from before the call is unchanged. A failed call can still leave
  a trace: \<open>getOrCreateAccount\<close> inserts on \<open>knex\<close>, outside the transaction, so a wallet row
  with balance 0 created for a sender or receiver who had none stays. When both wallets
  exist beforehand, a failed call leaves the database exactly as it was. When the call
  succeeds, both ledger entries, both balance updates and the transaction row with status
  \<open>'completed'\<close> are all in the resulting database.
\<close>

theorem recordTransfer_atomic:
  assumes "recordTransfer e fromUserId toUserId amount d = (res, d')"
  shows "case res of
           Inl er \<Rightarrow>
             ledger_entries d' = ledger_entries d \<and>
             transactions d' = transactions d \<and>
             (\<exists>new. accounts d' = accounts d @ new \<and>
                (\<forall>a\<in>set new. balance a = 0 \<and> account_type a = ''customer_wallet'' \<and>
                   (user_id a = fromUserId \<or> user_id a = toUserId) \<and>
                   find_account d (user_id a) ''customer_wallet'' = None)) \<and>
             (find_account d fromUserId ''customer_wallet'' \<noteq> None \<and>
              find_account d toUserId ''customer_wallet'' \<noteq> None \<longrightarrow> d' = d)
         | Inr r \<Rightarrow>
             (\<exists>fromAccount toAccount c1 c2.
                getOrCreateAccount e fromUserId ''customer_wallet'' (start_conn d)
                  = (Inr fromAccount, c1) \<and>
                getOrCreateAccount e toUserId ''customer_wallet'' c1 = (Inr toAccount, c2) \<and>
                ledger_entries d' = ledger_entries d @
                  [\<lparr>le_transaction_ref = generateTRN e, le_account_id = acc_id fromAccount,
                    le_entry_type = Debit, le_amount = amount,
                    le_balance_after = fromNewBalance r, le_created_at = now e\<rparr>,
                   \<lparr>le_transaction_ref = generateTRN e, le_account_id = acc_id toAccount,
                    le_entry_type = Credit, le_amount = amount,
                    le_balance_after = toNewBalance r, le_created_at = now e\<rparr>] \<and>
                accounts d' =
                  accounts (update_balance (acc_id toAccount) (toNewBalance r)
                             (update_balance (acc_id fromAccount) (fromNewBalance r)
                                (inside c2))) \<and>
                transactions d' = transactions d @
                  [\<lparr>tx_id = fresh_id (map tx_id (transactions d)),
                    tx_transaction_ref = generateTRN e, tx_type = ''transfer'',
                    tx_from_account_id = Some (acc_id fromAccount),
                    tx_to_account_id = Some (acc_id toAccount),
                    tx_amount = amount, tx_status = ''completed'',
                    tx_created_at = now e\<rparr>])"
proof (cases res)
  case (Inl er)
  obtain c' where cb: "transfer_callback e fromUserId toUserId amount (start_conn d) = (Inl er, c')"
    and d': "d' = outside c'"
    using assms Inl
    by (auto simp add: recordTransfer_def knex_transaction_def start_conn_def
        split: prod.splits sum.splits)
  from transfer_callback_rollback[OF cb] d' Inl show ?thesis
    by simp
next
  case (Inr r)
  obtain c' where cb: "transfer_callback e fromUserId toUserId amount (start_conn d) = (Inr r, c')"
    and d': "d' = inside c'"
    using assms Inr
    by (auto simp add: recordTransfer_def knex_transaction_def start_conn_def
        split: prod.splits sum.splits)
  from transfer_callback_Inr_full[OF cb] obtain fa ta c1 c2 c4 where
    g1: "getOrCreateAccount e fromUserId ''customer_wallet'' (start_conn d) = (Inr fa, c1)" and
    g2: "getOrCreateAccount e toUserId ''customer_wallet'' c1 = (Inr ta, c2)" and
    i4: "inside c4 = inside c2" and
    w: "transfer_writes e (generateTRN e) fa ta amount
          (fromNewBalance r) (toNewBalance r) c4 = (Inr r, c')"
    by blast
  have l2: "ledger_entries (inside c2) = ledger_entries d"
    using getOrCreateAccount_tables(1)[OF g1] getOrCreateAccount_tables(1)[OF g2]
    by (simp add: start_conn_def)
  have t2: "transactions (inside c2) = transactions d"
    using getOrCreateAccount_tables(2)[OF g1] getOrCreateAccount_tables(2)[OF g2]
    by (simp add: start_conn_def)
  have le: "ledger_entries d' = ledger_entries d @
                  [\<lparr>le_transaction_ref = generateTRN e, le_account_id = acc_id fa,
                    le_entry_type = Debit, le_amount = amount,
                    le_balance_after = fromNewBalance r, le_created_at = now e\<rparr>,
                   \<lparr>le_transaction_ref = generateTRN e, le_account_id = acc_id ta,
                    le_entry_type = Credit, le_amount = amount,
                    le_balance_after = toNewBalance r, le_created_at = now e\<rparr>]"
    using transfer_writes_Inr(2)[OF w] d' i4 l2 by simp
  have ac: "accounts d' =
                  accounts (update_balance (acc_id ta) (toNewBalance r)
                             (update_balance (acc_id fa) (fromNewBalance r) (inside c2)))"
    using transfer_writes_Inr(3)[OF w] d' i4 by simp
  have tx: "transactions d' = transactions d @
                  [\<lparr>tx_id = fresh_id (map tx_id (transactions d)),
                    tx_transaction_ref = generateTRN e, tx_type = ''transfer'',
                    tx_from_account_id = Some (acc_id fa),
                    tx_to_account_id = Some (acc_id ta),
                    tx_amount = amount, tx_status = ''completed'',
                    tx_created_at = now e\<rparr>]"
    using transfer_writes_transactions[OF w] d' i4 t2 by simp
  from g1 g2 le ac tx have "\<exists>fromAccount toAccount c1 c2.
                getOrCreateAccount e fromUserId ''customer_wallet'' (start_conn d)
                  = (Inr fromAccount, c1) \<and>
                getOrCreateAccount e toUserId ''customer_wallet'' c1 = (Inr toAccount, c2) \<and>
                ledger_entries d' = ledger_entries d @
                  [\<lparr>le_transaction_ref = generateTRN e, le_account_id = acc_id fromAccount,
                    le_entry_type = Debit, le_amount = amount,
                    le_balance_after = fromNewBalance r, le_created_at = now e\<rparr>,
                   \<lparr>le_transaction_ref = generateTRN e, le_account_id = acc_id toAccount,
                    le_entry_type = Credit, le_amount = amount,
                    le_balance_after = toNewBalance r, le_created_at = now e\<rparr>] \<and>
                accounts d' =
                  accounts (update_balance (acc_id toAccount) (toNewBalance r)
                             (update_balance (acc_id fromAccount) (fromNewBalance r)
                                (inside c2))) \<and>
                transactions d' = transactions d @
                  [\<lparr>tx_id = fresh_id (map tx_id (transactions d)),
                    tx_transaction_ref = generateTRN e, tx_type = ''transfer'',
                    tx_from_account_id = Some (acc_id fromAccount),
                    tx_to_account_id = Some (acc_id toAccount),
                    tx_amount = amount, tx_status = ''completed'',
                    tx_created_at = now e\<rparr>]"
    by blast
  with Inr show ?thesis by simp
qed


text \<open>
  C2 as stated fails: user 3 has no wallet, the transfer of 20000 to them fails for
  insufficient balance, and the accounts table has one row more than before.
\<close>

theorem failed_transfer_keeps_wallet_counterexample:
  "recordTransfer quiet_env 1 3 20000 two_users = (Inl InsufficientBalance, two_users_and_c) \<and>
   accounts two_users = [user_a, user_b] \<and>
   accounts two_users_and_c = [user_a, user_b, user_c] \<and>
   two_users_and_c \<noteq> two_users"
  by code_simp

text \<open>The update of the receiver's balance is rejected, after the transaction row, both
  entries and the sender's balance were written: nothing of them remains. A receiver
  without a wallet keeps the empty one that was created for them; between two users who
  have wallets the database is what it was. The transfer that nothing interrupts leaves
  both entries and the completed transaction row.\<close>

theorem recordTransfer_atomic_witness:
  "recordTransfer late_failure_env 1 3 3000 two_users = (Inl DbError, two_users_and_c) \<and>
   ledger_entries two_users_and_c = ledger_entries two_users \<and>
   transactions two_users_and_c = transactions two_users \<and>
   accounts two_users_and_c = accounts two_users @ [user_c] \<and>
   find_account two_users 1 ''customer_wallet'' \<noteq> None \<and>
   find_account two_users 2 ''customer_wallet'' \<noteq> None \<and>
   recordTransfer late_failure_env 1 2 3000 two_users = (Inl DbError, two_users) \<and>
   recordTransfer quiet_env 1 2 3000 two_users =
     (Inr \<lparr>transactionRef = ''PK260103101500A1B2C3'', fromNewBalance = 7000,
           toNewBalance = 3500\<rparr>, after_transfer) \<and>
   length (ledger_entries after_transfer) = length (ledger_entries two_users) + 2 \<and>
   length (transactions after_transfer) = length (transactions two_users) + 1 \<and>
   tx_status (last (transactions after_transfer)) = ''completed''"
proof -
  have run: "recordTransfer late_failure_env 1 3 3000 two_users = (Inl DbError, two_users_and_c)"
    by code_simp
  from recordTransfer_atomic[OF run]
  have unchanged: "ledger_entries two_users_and_c = ledger_entries two_users \<and>
        transactions two_users_and_c = transactions two_users"
    by simp
  have grown: "accounts two_users_and_c = accounts two_users @ [user_c]"
    by (simp add: two_users_and_c_def two_users_def)
  have w1: "find_account two_users 1 ''customer_wallet'' \<noteq> None" by code_simp
  have w2: "find_account two_users 2 ''customer_wallet'' \<noteq> None" by code_simp
  have fails12: "fst (recordTransfer late_failure_env 1 2 3000 two_users) = Inl DbError"
    by code_simp
  have run12: "recordTransfer late_failure_env 1 2 3000 two_users =
                 (Inl DbError, snd (recordTransfer late_failure_env 1 2 3000 two_users))"
    using fails12 by (metis prod.collapse)
  from recordTransfer_atomic[OF run12] w1 w2
  have "snd (recordTransfer late_failure_env 1 2 3000 two_users) = two_users"
    by simp
  with run12
  have same: "recordTransfer late_failure_env 1 2 3000 two_users = (Inl DbError, two_users)"
    by simp
  have run2: "recordTransfer quiet_env 1 2 3000 two_users =
     (Inr \<lparr>transactionRef = ''PK260103101500A1B2C3'', fromNewBalance = 7000,
           toNewBalance = 3500\<rparr>, after_transfer)"
    by code_simp
  from recordTransfer_atomic[OF run2]
  have completed:
    "length (ledger_entries after_transfer) = length (ledger_entries two_users) + 2 \<and>
     length (transactions after_transfer) = length (transactions two_users) + 1 \<and>
     tx_status (last (transactions after_transfer)) = ''completed''"
    by auto
  from run unchanged grown w1 w2 same run2 completed show ?thesis
    by (intro conjI) simp_all
qed


lemma find_mem: "List.find P xs = Some x \<Longrightarrow> x \<in> set xs"
  by (induction xs) (auto split: if_splits)

lemma find_by_id:
  "distinct (map acc_id xs) \<Longrightarrow> a \<in> set xs \<Longrightarrow> List.find (\<lambda>x. acc_id x = acc_id a) xs = Some a"
  by (induction xs) force+

lemma transfer_locked_Inr_checks:
  assumes "transfer_locked e r fa ta amt lf lt c = (Inr res, c')"
  shows "\<exists>lfa lta. lf = Some lfa \<and> lt = Some lta \<and> \<not> balance lfa < amt \<and>
           transfer_writes e r fa ta amt (balance lfa - amt) (balance lta + amt) c = (Inr res, c')"
  using assms
  by (auto simp add: transfer_locked_def split: option.splits if_splits)

lemma nonneg_update_balance:
  "nonneg_balances d \<Longrightarrow> 0 \<le> b \<Longrightarrow> nonneg_balances (update_balance i b d)"
  by (auto simp add: nonneg_balances_def update_balance_def list_all_iff)

lemma nonneg_accounts_cong:
  "accounts d = accounts d' \<Longrightarrow> nonneg_balances d = nonneg_balances d'"
  by (simp add: nonneg_balances_def)

lemma nonneg_append_zero:
  "nonneg_balances d \<Longrightarrow> accounts d' = accounts d @ new \<Longrightarrow> \<forall>a\<in>set new. balance a = 0
     \<Longrightarrow> nonneg_balances d'"
  by (auto simp add: nonneg_balances_def list_all_iff)

lemma nonneg_mem: "nonneg_balances d \<Longrightarrow> a \<in> set (accounts d) \<Longrightarrow> 0 \<le> balance a"
  by (simp add: nonneg_balances_def list_all_iff)

lemma recordTransfer_nonneg:
  assumes nn: "nonneg_balances d" and amt: "0 \<le> amount"
  shows "nonneg_balances (snd (recordTransfer e f t amount d))"
proof -
  obtain res c' where cb: "transfer_callback e f t amount (start_conn d) = (res, c')"
    by (cases "transfer_callback e f t amount (start_conn d)")
  show ?thesis
  proof (cases res)
    case (Inl er)
    with cb have d': "snd (recordTransfer e f t amount d) = outside c'"
      by (simp add: recordTransfer_def knex_transaction_def start_conn_def)
    from transfer_callback_outside[OF cb] obtain new where
      "accounts (outside c') = accounts d @ new" "\<forall>a\<in>set new. balance a = 0"
      by (auto simp add: start_conn_def)
    from nonneg_append_zero[OF nn this] d' show ?thesis by simp
  next
    case (Inr r)
    with cb have d': "snd (recordTransfer e f t amount d) = inside c'"
      by (simp add: recordTransfer_def knex_transaction_def start_conn_def)
    obtain r1 c1 where g1: "getOrCreateAccount e f ''customer_wallet'' (start_conn d) = (r1, c1)"
      by (cases "getOrCreateAccount e f ''customer_wallet'' (start_conn d)")
    obtain r2 c2 where g2: "getOrCreateAccount e t ''customer_wallet'' c1 = (r2, c2)"
      by (cases "getOrCreateAccount e t ''customer_wallet'' c1")
    from cb Inr g1 obtain fa where r1: "r1 = Inr fa"
      by (cases r1) (auto simp add: transfer_callback_def)
    from cb Inr g1 g2 r1 obtain ta where r2: "r2 = Inr ta"
      by (cases r2) (auto simp add: transfer_callback_def)
    let ?lf = "List.find (\<lambda>a. acc_id a = acc_id fa) (accounts (inside c2))"
    let ?lt = "List.find (\<lambda>a. acc_id a = acc_id ta) (accounts (inside c2))"
    let ?c4 = "c2\<lparr>locked := locked c2 @ [acc_id fa, acc_id ta]\<rparr>"
    from cb Inr g1 g2 r1 r2
    have tl: "transfer_locked e (generateTRN e) fa ta amount ?lf ?lt ?c4 = (Inr r, c')"
      by (simp add: transfer_callback_def select_for_update_def)
    from transfer_locked_Inr_checks[OF tl] obtain lfa lta where
      lf: "?lf = Some lfa" and lt: "?lt = Some lta" and suff: "\<not> balance lfa < amount" and
      w: "transfer_writes e (generateTRN e) fa ta amount
            (balance lfa - amount) (balance lta + amount) ?c4 = (Inr r, c')"
      by blast
    from getOrCreateAccount_accounts[OF g1] obtain n1 where
      n1: "accounts (inside c1) = accounts d @ n1" "\<forall>a\<in>set n1. balance a = 0"
      by (auto simp add: start_conn_def)
    from getOrCreateAccount_accounts[OF g2] obtain n2 where
      n2: "accounts (inside c2) = accounts (inside c1) @ n2" "\<forall>a\<in>set n2. balance a = 0"
      by blast
    have nn1: "nonneg_balances (inside c1)"
      by (rule nonneg_append_zero[OF nn n1])
    have nn2: "nonneg_balances (inside c2)"
      by (rule nonneg_append_zero[OF nn1 n2])
    have "0 \<le> balance lta"
      using nonneg_mem[OF nn2 find_mem[OF lt]] .
    with amt have tn: "0 \<le> balance lta + amount" by simp
    from suff have fn: "0 \<le> balance lfa - amount" by simp
    have "accounts (inside c') =
            accounts (update_balance (acc_id ta) (balance lta + amount)
              (update_balance (acc_id fa) (balance lfa - amount) (inside c2)))"
      using transfer_writes_Inr(3)[OF w] by simp
    from nonneg_accounts_cong[OF this]
      nonneg_update_balance[OF nonneg_update_balance[OF nn2 fn] tn]
    have "nonneg_balances (inside c')" by simp
    with d' show ?thesis by simp
  qed
qed

lemma deposit_nonneg:
  assumes nn: "nonneg_balances d" and amt: "0 \<le> amount"
  shows "nonneg_balances (snd (deposit e u amount d))"
proof -
  obtain r1 c1 where g1: "getOrCreateAccount e u ''customer_wallet'' (start_conn d) = (r1, c1)"
    by (cases "getOrCreateAccount e u ''customer_wallet'' (start_conn d)")
  from getOrCreateAccount_accounts[OF g1] obtain n1 where
    i1: "accounts (inside c1) = accounts d @ n1" and
    o1: "accounts (outside c1) = accounts d @ n1" and z1: "\<forall>a\<in>set n1. balance a = 0"
    by (auto simp add: start_conn_def)
  have nni: "nonneg_balances (inside c1)" by (rule nonneg_append_zero[OF nn i1 z1])
  have nno: "nonneg_balances (outside c1)" by (rule nonneg_append_zero[OF nn o1 z1])
  show ?thesis
  proof (cases r1)
    case (Inl er)
    with g1 nno show ?thesis
      by (simp add: deposit_def knex_transaction_def deposit_callback_def start_conn_def)
  next
    case (Inr account)
    show ?thesis
    proof (cases "List.find (\<lambda>a. acc_id a = acc_id account) (accounts (inside c1))")
      case None
      with g1 Inr nno show ?thesis
        by (simp add: deposit_def knex_transaction_def deposit_callback_def start_conn_def
            select_for_update_def)
    next
      case (Some la)
      have "0 \<le> balance la" using nonneg_mem[OF nni find_mem[OF Some]] .
      with amt have nb: "0 \<le> balance la + amount" by simp
      have up: "nonneg_balances (update_balance (acc_id account) (balance la + amount) (inside c1))"
        by (rule nonneg_update_balance[OF nni nb])
      then have up': "list_all (\<lambda>a. 0 \<le> balance a)
          (accounts (update_balance (acc_id account) (balance la + amount) (inside c1)))"
        by (simp add: nonneg_balances_def)
      from nno have no': "list_all (\<lambda>a. 0 \<le> balance a) (accounts (outside c1))"
        by (simp add: nonneg_balances_def)
      from g1 Inr Some up' no' show ?thesis
        by (simp add: deposit_def knex_transaction_def deposit_callback_def start_conn_def
            select_for_update_def Let_def nonneg_balances_def insert_transaction_def
            insert_ledger_entry_def update_balance_def)
    qed
  qed
qed

text \<open>
  C4, as amended. For every amount that is not negative, \<open>recordTransfer\<close> and \<open>deposit\<close>
  keep every account balance at or above zero, whether the call succeeds or fails. (The
  service has no \<open>withdraw\<close>.) Neither function looks at the sign of the amount.
\<close>

theorem balances_stay_nonneg:
  assumes "nonneg_balances d" and "0 \<le> amount"
  shows "nonneg_balances (snd (recordTransfer e fromUserId toUserId amount d)) \<and>
         nonneg_balances (snd (deposit e userId amount d))"
  using recordTransfer_nonneg[OF assms] deposit_nonneg[OF assms] by simp

theorem balances_stay_nonneg_witness:
  "nonneg_balances two_users \<and> (0::rat) \<le> 3000 \<and>
   nonneg_balances (snd (recordTransfer quiet_env 1 2 3000 two_users)) \<and>
   nonneg_balances (snd (deposit quiet_env 2 3000 two_users))"
proof -
  have nn: "nonneg_balances two_users" by code_simp
  have pos: "(0::rat) \<le> 3000" by simp
  from balances_stay_nonneg[OF nn pos, of quiet_env 1 2 2] nn pos show ?thesis
    by simp
qed

text \<open>
  C4 as stated fails for a negative amount: a transfer of -1000 passes the balance check
  (10000 is not below -1000), raises the sender to 11000 and takes the receiver from 500
  to -500; a deposit of -1000 does the same to the depositor.
\<close>

theorem negative_amount_counterexample:
  "nonneg_balances two_users \<and>
   accounts (snd (recordTransfer quiet_env 1 2 (- 1000) two_users)) =
     [user_a\<lparr>balance := 11000\<rparr>, user_b\<lparr>balance := - 500\<rparr>] \<and>
   \<not> nonneg_balances (snd (recordTransfer quiet_env 1 2 (- 1000) two_users)) \<and>
   accounts (snd (deposit quiet_env 2 (- 1000) two_users)) =
     [user_a, user_b\<lparr>balance := - 500\<rparr>] \<and>
   \<not> nonneg_balances (snd (deposit quiet_env 2 (- 1000) two_users))"
  by code_simp


lemma fst_transfer_writes:
  "fst (transfer_writes e r fa ta amt fn tn c) =
     (if any_write_fails e \<or> ref_taken r (inside c) then Inl DbError
      else Inr \<lparr>transactionRef = r, fromNewBalance = fn, toNewBalance = tn\<rparr>)"
  by (simp add: transfer_writes_def any_write_fails_def Let_def)

lemma getOrCreateAccount_found:
  "find_account (outside c) u ty = Some a \<Longrightarrow> getOrCreateAccount e u ty c = (Inr a, c)"
  by (simp add: getOrCreateAccount_def)

lemma find_account_mem: "find_account d u ty = Some a \<Longrightarrow> a \<in> set (accounts d)"
  by (simp add: find_account_def find_mem)

lemma transfer_callback_existing:
  assumes fa: "find_account d f ''customer_wallet'' = Some fa"
      and ta: "find_account d t ''customer_wallet'' = Some ta"
      and dist: "distinct (map acc_id (accounts d))"
  shows "transfer_callback e f t amount (start_conn d) =
           transfer_locked e (generateTRN e) fa ta amount (Some fa) (Some ta)
             \<lparr>outside = d, inside = d, locked = [acc_id fa, acc_id ta]\<rparr>"
proof -
  have g1: "getOrCreateAccount e f ''customer_wallet'' (start_conn d) = (Inr fa, start_conn d)"
    by (rule getOrCreateAccount_found) (simp add: start_conn_def fa)
  have g2: "getOrCreateAccount e t ''customer_wallet'' (start_conn d) = (Inr ta, start_conn d)"
    by (rule getOrCreateAccount_found) (simp add: start_conn_def ta)
  have l1: "List.find (\<lambda>a. acc_id a = acc_id fa) (accounts d) = Some fa"
    by (rule find_by_id[OF dist find_account_mem[OF fa]])
  have l2: "List.find (\<lambda>a. acc_id a = acc_id ta) (accounts d) = Some ta"
    by (rule find_by_id[OF dist find_account_mem[OF ta]])
  show ?thesis
    by (simp add: transfer_callback_def g1 g2 select_for_update_def)
       (simp add: start_conn_def l1 l2)
qed

text \<open>
  C5, as amended. \<open>recordTransfer\<close> has no check of the amount and no \<open>InvalidAmount\<close>
  error. When both wallets exist (account identifiers being unique), the call fails with
  \<open>'Insufficient balance'\<close> exactly when the locked source balance is below the amount,
  otherwise with \<open>'Source account is not active'\<close> or \<open>'Destination account is not
  active'\<close> when the respective status differs from \<open>'active'\<close>, otherwise only when the
  database rejects a write; in every other case, amounts of zero or below included, it
  succeeds. Every failure leaves the database as it was.
\<close>

theorem recordTransfer_outcomes:
  assumes "find_account d fromUserId ''customer_wallet'' = Some fa"
      and "find_account d toUserId ''customer_wallet'' = Some ta"
      and "distinct (map acc_id (accounts d))"
  shows "fst (recordTransfer e fromUserId toUserId amount d) =
           (if balance fa < amount then Inl InsufficientBalance
            else if status fa \<noteq> ''active'' then Inl SourceNotActive
            else if status ta \<noteq> ''active'' then Inl DestinationNotActive
            else if any_write_fails e \<or> ref_taken (generateTRN e) d then Inl DbError
            else Inr \<lparr>transactionRef = generateTRN e,
                      fromNewBalance = balance fa - amount,
                      toNewBalance = balance ta + amount\<rparr>) \<and>
         (isl (fst (recordTransfer e fromUserId toUserId amount d)) \<longrightarrow>
            snd (recordTransfer e fromUserId toUserId amount d) = d)"
proof -
  let ?c = "\<lparr>outside = d, inside = d, locked = [acc_id fa, acc_id ta]\<rparr>"
  let ?tl = "transfer_locked e (generateTRN e) fa ta amount (Some fa) (Some ta) ?c"
  have cb: "transfer_callback e fromUserId toUserId amount (start_conn d) = ?tl"
    by (rule transfer_callback_existing[OF assms])
  have rt: "recordTransfer e fromUserId toUserId amount d =
        (case ?tl of (Inl er, c) \<Rightarrow> (Inl er, outside c) | (Inr r, c) \<Rightarrow> (Inr r, inside c))"
    using cb by (simp add: recordTransfer_def knex_transaction_def start_conn_def)
  have f: "fst (recordTransfer e fromUserId toUserId amount d) = fst ?tl"
    unfolding rt by (cases ?tl) (auto split: sum.splits)
  have "fst ?tl =
           (if balance fa < amount then Inl InsufficientBalance
            else if status fa \<noteq> ''active'' then Inl SourceNotActive
            else if status ta \<noteq> ''active'' then Inl DestinationNotActive
            else if any_write_fails e \<or> ref_taken (generateTRN e) d then Inl DbError
            else Inr \<lparr>transactionRef = generateTRN e,
                      fromNewBalance = balance fa - amount,
                      toNewBalance = balance ta + amount\<rparr>)"
    by (simp add: transfer_locked_def fst_transfer_writes)
  moreover have "isl (fst (recordTransfer e fromUserId toUserId amount d)) \<longrightarrow>
            snd (recordTransfer e fromUserId toUserId amount d) = d"
  proof
    assume "isl (fst (recordTransfer e fromUserId toUserId amount d))"
    then have "snd (recordTransfer e fromUserId toUserId amount d) = outside (snd ?tl)"
      unfolding rt by (cases ?tl) (auto split: sum.splits)
    then show "snd (recordTransfer e fromUserId toUserId amount d) = d"
      by (simp add: transfer_locked_outside)
  qed
  ultimately show ?thesis using f by simp
qed

theorem recordTransfer_outcomes_witness:
  "find_account two_users 1 ''customer_wallet'' = Some user_a \<and>
   find_account two_users 2 ''customer_wallet'' = Some user_b \<and>
   distinct (map acc_id (accounts two_users)) \<and>
   fst (recordTransfer quiet_env 1 2 20000 two_users) = Inl InsufficientBalance \<and>
   snd (recordTransfer quiet_env 1 2 20000 two_users) = two_users"
proof -
  have h1: "find_account two_users 1 ''customer_wallet'' = Some user_a" by code_simp
  have h2: "find_account two_users 2 ''customer_wallet'' = Some user_b" by code_simp
  have h3: "distinct (map acc_id (accounts two_users))" by code_simp
  have b: "balance user_a < 20000" by (simp add: user_a_def)
  from recordTransfer_outcomes[OF h1 h2 h3, of quiet_env 20000] b
  have "fst (recordTransfer quiet_env 1 2 20000 two_users) = Inl InsufficientBalance \<and>
        snd (recordTransfer quiet_env 1 2 20000 two_users) = two_users"
    by simp
  with h1 h2 h3 show ?thesis by simp
qed

text \<open>
  C5 as stated fails: with an amount of 0, and with an amount of -250, the call succeeds
  and returns the new balances.
\<close>

theorem zero_amount_counterexample:
  "fst (recordTransfer quiet_env 1 2 0 two_users) =
     Inr \<lparr>transactionRef = ''PK260103101500A1B2C3'', fromNewBalance = 10000,
          toNewBalance = 500\<rparr> \<and>
   fst (recordTransfer quiet_env 1 2 (- 250) two_users) =
     Inr \<lparr>transactionRef = ''PK260103101500A1B2C3'', fromNewBalance = 10250,
          toNewBalance = 250\<rparr>"
  by code_simp

text \<open>
  C7, as amended. \<open>recordTransfer\<close> requests the row lock of the sender's account first
  and the row lock of the receiver's account second, whatever their identifiers are.
\<close>

theorem recordTransfer_lock_order:
  assumes "getOrCreateAccount e fromUserId ''customer_wallet'' c0 = (Inr fromAccount, c1)"
      and "getOrCreateAccount e toUserId ''customer_wallet'' c1 = (Inr toAccount, c2)"
  shows "locked (snd (transfer_callback e fromUserId toUserId amount c0)) =
           locked c0 @ [acc_id fromAccount, acc_id toAccount]"
  using assms getOrCreateAccount_tables(5)[OF assms(1)] getOrCreateAccount_tables(5)[OF assms(2)]
  by (simp add: transfer_callback_def select_for_update_def transfer_locked_locked)

theorem recordTransfer_lock_order_witness:
  "getOrCreateAccount quiet_env 2 ''customer_wallet'' (start_conn two_users)
     = (Inr user_b, start_conn two_users) \<and>
   getOrCreateAccount quiet_env 1 ''customer_wallet'' (start_conn two_users)
     = (Inr user_a, start_conn two_users) \<and>
   locked (snd (transfer_callback quiet_env 2 1 700 (start_conn two_users)))
     = [acc_id user_b, acc_id user_a]"
proof -
  have g1: "getOrCreateAccount quiet_env 2 ''customer_wallet'' (start_conn two_users)
     = (Inr user_b, start_conn two_users)" by code_simp
  have g2: "getOrCreateAccount quiet_env 1 ''customer_wallet'' (start_conn two_users)
     = (Inr user_a, start_conn two_users)" by code_simp
  from recordTransfer_lock_order[OF g1 g2, of 700] g1 g2 show ?thesis
    by (simp add: start_conn_def)
qed

text \<open>
  C7 as stated fails: between the same two accounts, 101 and 102, a transfer from user 1
  to user 2 locks 101 then 102, and a transfer from user 2 to user 1 locks 102 then 101.
  The order follows the direction of the transfer, not the identifiers.
\<close>

theorem lock_order_counterexample:
  "locked (snd (transfer_callback quiet_env 1 2 100 (start_conn two_users))) = [101, 102] \<and>
   locked (snd (transfer_callback quiet_env 2 1 100 (start_conn two_users))) = [102, 101]"
  by code_simp



lemma sum_case_filter:
  "sum_list (map (\<lambda>x. if P x then f x else (0::rat)) xs) = sum_list (map f (filter P xs))"
  by (induction xs) simp_all

lemma to_double_zero: "to_double 0 = 0"
  by (simp add: to_double_def)

lemma to_double_cent_pos: "0 < to_double (1 / 100)"
proof -
  have "to_double (1 / 100) = 5764607523034235 / 576460752303423488" by code_simp
  then show ?thesis by simp
qed

lemma or_zero_case_sum:
  "or_zero (case_sum ty (window_entries date d)) = to_double (window_total ty date d)"
  by (simp add: or_zero_def case_sum_def sql_sum_def window_total_def sum_case_filter
      to_double_zero)

lemma books_balance_window:
  "window_entries date d \<noteq> [] \<Longrightarrow>
   books_balance (case_sum Debit (window_entries date d)) (case_sum Credit (window_entries date d))
     = (\<bar>to_double (to_double (window_total Debit date d) -
                    to_double (window_total Credit date d))\<bar> < to_double (1 / 100))"
  by (simp add: books_balance_def case_sum_def sql_sum_def window_total_def sum_case_filter)

text \<open>
  C9, as amended. \<open>generateDailyReport\<close> counts the completed transactions and the ledger
  entries of the day's window and sums the debits and the credits of those entries. It
  makes no assertion: unless one of its two queries throws it always returns the report,
  with both sums as doubles. For a window with at least one entry the field \<open>isBalanced\<close> is
  the test \<open>Math.abs(parseFloat(debits) - parseFloat(credits)) < 0.01\<close> on doubles, which
  holds in particular when the two sums are equal; a mismatch only makes this field false.
\<close>

theorem generateDailyReport_flags_mismatch:
  "(fails e SelectTransactions \<or> fails e SelectTotals \<longrightarrow>
      generateDailyReport e date d = Inl DbError) \<and>
   (\<not> (fails e SelectTransactions \<or> fails e SelectTotals) \<longrightarrow>
      (\<exists>flag.
         generateDailyReport e date d =
           Inr \<lparr>transactionCount =
                  length (filter (\<lambda>t. in_window date (tx_created_at t) \<and>
                                        tx_status t = ''completed'') (transactions d)),
                totalDebits = to_double (window_total Debit date d),
                totalCredits = to_double (window_total Credit date d),
                totalEntries = length (window_entries date d),
                isBalanced = flag\<rparr> \<and>
         (window_entries date d \<noteq> [] \<longrightarrow>
            flag = (\<bar>to_double (to_double (window_total Debit date d) -
                                to_double (window_total Credit date d))\<bar>
                      < to_double (1 / 100))) \<and>
         (window_entries date d \<noteq> [] \<and>
          window_total Debit date d = window_total Credit date d \<longrightarrow> flag)))"
proof (intro conjI impI)
  assume "fails e SelectTransactions \<or> fails e SelectTotals"
  then show "generateDailyReport e date d = Inl DbError"
    by (auto simp add: generateDailyReport_def Let_def)
next
  assume ok: "\<not> (fails e SelectTransactions \<or> fails e SelectTotals)"
  let ?flag = "books_balance (case_sum Debit (window_entries date d))
                 (case_sum Credit (window_entries date d))"
  have rep: "generateDailyReport e date d =
           Inr \<lparr>transactionCount =
                  length (filter (\<lambda>t. in_window date (tx_created_at t) \<and>
                                        tx_status t = ''completed'') (transactions d)),
                totalDebits = to_double (window_total Debit date d),
                totalCredits = to_double (window_total Credit date d),
                totalEntries = length (window_entries date d),
                isBalanced = ?flag\<rparr>"
    using ok by (simp add: generateDailyReport_def Let_def or_zero_case_sum)
  have test: "window_entries date d \<noteq> [] \<longrightarrow>
            ?flag = (\<bar>to_double (to_double (window_total Debit date d) -
                                to_double (window_total Credit date d))\<bar>
                      < to_double (1 / 100))"
    using books_balance_window by blast
  have eq: "window_entries date d \<noteq> [] \<and>
          window_total Debit date d = window_total Credit date d \<longrightarrow> ?flag"
  proof
    assume a: "window_entries date d \<noteq> [] \<and>
          window_total Debit date d = window_total Credit date d"
    then have "?flag = (\<bar>to_double (0::rat)\<bar> < to_double (1 / 100))"
      using books_balance_window[of date d] by simp
    then show ?flag by (simp add: to_double_zero to_double_cent_pos)
  qed
  from rep test eq
  show "\<exists>flag.
         generateDailyReport e date d =
           Inr \<lparr>transactionCount =
                  length (filter (\<lambda>t. in_window date (tx_created_at t) \<and>
                                        tx_status t = ''completed'') (transactions d)),
                totalDebits = to_double (window_total Debit date d),
                totalCredits = to_double (window_total Credit date d),
                totalEntries = length (window_entries date d),
                isBalanced = flag\<rparr> \<and>
         (window_entries date d \<noteq> [] \<longrightarrow>
            flag = (\<bar>to_double (to_double (window_total Debit date d) -
                                to_double (window_total Credit date d))\<bar>
                      < to_double (1 / 100))) \<and>
         (window_entries date d \<noteq> [] \<and>
          window_total Debit date d = window_total Credit date d \<longrightarrow> flag)"
    by (intro exI[of _ ?flag] conjI)
qed

text \<open>
  C9 as stated fails: on a day whose only entry is a debit of 100 the sums are 100 and 0,
  and the report is returned as usual, with \<open>isBalanced\<close> false.
\<close>

theorem unbalanced_report_counterexample:
  "generateDailyReport quiet_env 5000 lone_debit =
     Inr \<lparr>transactionCount = 0, totalDebits = 100, totalCredits = 0, totalEntries = 1,
          isBalanced = False\<rparr>"
  by code_simp

text \<open>
  The day of the transfer of 3000 balances. So does, in doubles, a day with a debit of 0.03
  and a credit of 0.02: the difference of the two doubles is 0.009999999999999998, below
  the double 0.01. A rejected query is the only way not to get a report.
\<close>

theorem generateDailyReport_flags_mismatch_witness:
  "generateDailyReport quiet_env 5000 after_transfer =
     Inr \<lparr>transactionCount = 1, totalDebits = 3000, totalCredits = 3000, totalEntries = 2,
          isBalanced = True\<rparr> \<and>
   generateDailyReport quiet_env 5000 off_by_a_cent =
     Inr \<lparr>transactionCount = 0,
          totalDebits = 1080863910568919 / 36028797018963968,
          totalCredits = 5764607523034235 / 288230376151711744,
          totalEntries = 2, isBalanced = True\<rparr> \<and>
   generateDailyReport (quiet_env\<lparr>fails := (\<lambda>op. op = SelectTotals)\<rparr>) 5000 after_transfer =
     Inl DbError"
proof -
  have f: "\<not> (fails quiet_env SelectTransactions \<or> fails quiet_env SelectTotals)"
    by (simp add: quiet_env_def)
  have w: "window_entries 5000 after_transfer \<noteq> []" by code_simp
  have sums: "window_total Debit 5000 after_transfer = window_total Credit 5000 after_transfer"
    by code_simp
  have t: "length (filter (\<lambda>t. in_window 5000 (tx_created_at t) \<and>
             tx_status t = ''completed'') (transactions after_transfer)) = 1"
    by code_simp
  have d: "to_double (window_total Debit 5000 after_transfer) = 3000" by code_simp
  have c: "to_double (window_total Credit 5000 after_transfer) = 3000" by code_simp
  have l: "length (window_entries 5000 after_transfer) = 2" by code_simp
  from generateDailyReport_flags_mismatch[of quiet_env 5000 after_transfer] f w sums
  have p1: "generateDailyReport quiet_env 5000 after_transfer =
     Inr \<lparr>transactionCount = 1, totalDebits = 3000, totalCredits = 3000, totalEntries = 2,
          isBalanced = True\<rparr>"
    by (auto simp add: t d c l)
  have w2: "window_entries 5000 off_by_a_cent \<noteq> []" by code_simp
  have t2: "length (filter (\<lambda>t. in_window 5000 (tx_created_at t) \<and>
             tx_status t = ''completed'') (transactions off_by_a_cent)) = 0"
    by code_simp
  have d2: "to_double (window_total Debit 5000 off_by_a_cent)
              = 1080863910568919 / 36028797018963968" by code_simp
  have c2: "to_double (window_total Credit 5000 off_by_a_cent)
              = 5764607523034235 / 288230376151711744" by code_simp
  have l2: "length (window_entries 5000 off_by_a_cent) = 2" by code_simp
  have near: "\<bar>to_double (1080863910568919 / 36028797018963968
                  - 5764607523034235 / 288230376151711744)\<bar> < to_double (1 / 100)"
    by code_simp
  from generateDailyReport_flags_mismatch[of quiet_env 5000 off_by_a_cent] f w2
  have p2: "generateDailyReport quiet_env 5000 off_by_a_cent =
     Inr \<lparr>transactionCount = 0,
          totalDebits = 1080863910568919 / 36028797018963968,
          totalCredits = 5764607523034235 / 288230376151711744,
          totalEntries = 2, isBalanced = True\<rparr>"
    using near by (auto simp add: t2 d2 c2 l2)
  have f3: "fails (quiet_env\<lparr>fails := (\<lambda>op. op = SelectTotals)\<rparr>) SelectTransactions \<or>
            fails (quiet_env\<lparr>fails := (\<lambda>op. op = SelectTotals)\<rparr>) SelectTotals"
    by simp
  from generateDailyReport_flags_mismatch[of "quiet_env\<lparr>fails := (\<lambda>op. op = SelectTotals)\<rparr>"
      5000 after_transfer] f3
  have p3: "generateDailyReport (quiet_env\<lparr>fails := (\<lambda>op. op = SelectTotals)\<rparr>) 5000
              after_transfer = Inl DbError"
    by blast
  from p1 p2 p3 show ?thesis by (intro conjI)
qed


section \<open>Properties of the limit tracker\<close>

lemma daily_counter_compared:
  "spent_daily (fst (checkTransactionLimits today amount row)) =
     (if getDate today \<noteq> getDate (daily_reset_at row) then 0 else daily_spent row)"
  by (simp add: checkTransactionLimits_def reset_daily_def reset_monthly_def limit_answer_def)

lemma monthly_counter_compared:
  "spent_monthly (fst (checkTransactionLimits today amount row)) =
     (if getMonth today \<noteq> getMonth (monthly_reset_at row) \<or>
         getFullYear today \<noteq> getFullYear (monthly_reset_at row)
      then 0 else monthly_spent row)"
  by (simp add: checkTransactionLimits_def reset_daily_def reset_monthly_def limit_answer_def)

text \<open>
  C6. The daily reset compares the day of the month only (\<open>getDate\<close>), where the monthly
  reset compares month and year. A check on 15 February against a counter last reset on
  15 January, a strictly later calendar day, therefore keeps January's 20000: the transfer
  of 10000 is refused for the daily limit of 25000 with 5000 remaining, and the stored
  daily counter and reset time stay as they were, while the monthly counter is reset.
\<close>

theorem daily_reset_missed:
  "earlier_day (daily_reset_at spent_in_january) feb_15 \<and>
   checkTransactionLimits feb_15 10000 spent_in_january =
     (\<lparr>allowed = False, reason = Some (DailyLimit 5000), spent_daily = 20000,
       spent_monthly = 0\<rparr>,
      spent_in_january\<lparr>monthly_spent := 0, monthly_reset_at := feb_15\<rparr>)"
  by code_simp

section \<open>Properties of the transaction monitor\<close>

lemma shouldBlockTransaction_iff:
  "shouldBlockTransaction as \<longleftrightarrow>
     (\<exists>a\<in>set as. severity a = ''CRITICAL'' \<and>
        alert_type a \<in> {''SANCTIONS_HIT'', ''STRUCTURING'', ''DECEASED''})"
  by (simp add: shouldBlockTransaction_def list_ex_iff)

lemma decide_Inr:
  assumes "decide e t as s = (Inr r, s')"
  shows "r = \<lparr>blocked = shouldBlockTransaction as, alerts = as, error_flag = False\<rparr>"
  using assms
  by (auto simp add: decide_def mbind_def mreturn_def Let_def shouldBlockTransaction_def
      split: if_splits prod.splits sum.splits)

lemma monitor_try_Inr:
  assumes "monitor_try e t s = (Inr r, s')"
  shows "\<exists>as s1. evaluate_rules e t s = (Inr as, s1) \<and>
           r = \<lparr>blocked = shouldBlockTransaction as, alerts = as, error_flag = False\<rparr>"
proof -
  obtain x s1 where ev: "evaluate_rules e t s = (x, s1)"
    by (cases "evaluate_rules e t s")
  from assms ev obtain as where x: "x = Inr as"
    by (cases x) (auto simp add: monitor_try_def mbind_def)
  from assms ev x have "decide e t as s1 = (Inr r, s')"
    by (simp add: monitor_try_def mbind_def)
  from decide_Inr[OF this] ev x show ?thesis by blast
qed

lemma monitorTransaction_Inr:
  assumes "monitorTransaction e t s = (Inr r, s')"
  shows "blocked r = shouldBlockTransaction (alerts r)"
proof -
  obtain x s1 where tr: "monitor_try e t s = (x, s1)"
    by (cases "monitor_try e t s")
  show ?thesis
  proof (cases x)
    case (Inr r')
    with assms tr have "r' = r" by (simp add: monitorTransaction_def)
    with monitor_try_Inr tr Inr show ?thesis by fastforce
  next
    case (Inl er)
    with assms tr have "r = \<lparr>blocked = False, alerts = [], error_flag = True\<rparr>"
      by (auto simp add: monitorTransaction_def mbind_def mreturn_def logMonitoringError_def
          mwrite_def split: if_splits)
    then show ?thesis by (simp add: shouldBlockTransaction_def)
  qed
qed

text \<open>Calls that cannot throw when no database or notification call does.\<close>

lemma mbind_ok:
  "(\<And>s. \<not> isl (fst (m s))) \<Longrightarrow> (\<And>v s. \<not> isl (fst (f v s))) \<Longrightarrow> \<not> isl (fst (mbind m f s))"
proof -
  assume m: "\<And>s. \<not> isl (fst (m s))" and f: "\<And>v s. \<not> isl (fst (f v s))"
  obtain x s1 where ms: "m s = (x, s1)" by (cases "m s")
  with m[of s] obtain v where "x = Inr v" by (cases x) auto
  with ms f[of v s1] show ?thesis by (simp add: mbind_def)
qed

lemma mreturn_ok: "\<not> isl (fst (mreturn v s))"
  by (simp add: mreturn_def)

lemma mquery_ok: "\<not> mfails e op \<Longrightarrow> \<not> isl (fst (mquery e op v s))"
  by (simp add: mquery_def)

lemma mwrite_ok: "\<not> mfails e op \<Longrightarrow> \<not> isl (fst (mwrite e op f s))"
  by (simp add: mwrite_def)

lemma if_ok:
  "(c \<Longrightarrow> \<not> isl (fst (a s))) \<Longrightarrow> (\<not> c \<Longrightarrow> \<not> isl (fst (b s)))
     \<Longrightarrow> \<not> isl (fst ((if c then a else b) s))"
  by simp

lemma evaluators_ok:
  assumes q: "\<And>op. \<not> mfails e op"
  shows "\<not> isl (fst (getCustomerRiskProfile e s))"
    and "\<not> isl (fst (checkTransactionAmount e t ty s))"
    and "\<not> isl (fst (checkVelocity e s))"
    and "\<not> isl (fst (detectStructuring e t s))"
    and "\<not> isl (fst (detectSuspiciousPatterns e t s))"
    and "\<not> isl (fst (checkDormantAccount e t s))"
    and "\<not> isl (fst (checkSanctionsRealTime e t s))"
    and "\<not> isl (fst (checkGeographicRisk t s))"
    and "\<not> isl (fst (checkPEPTransaction e t s))"
  by (simp_all add: getCustomerRiskProfile_def checkTransactionAmount_def checkVelocity_def
      detectStructuring_def detectSuspiciousPatterns_def checkDormantAccount_def
      checkSanctionsRealTime_def checkGeographicRisk_def checkPEPTransaction_def
      generateCTR_def Let_def q mbind_def mquery_def mwrite_def mreturn_def
      split: option.splits)

lemma evaluate_rules_ok:
  assumes q: "\<And>op. \<not> mfails e op"
  shows "\<not> isl (fst (evaluate_rules e t s))"
  unfolding evaluate_rules_def
  by (intro mbind_ok mreturn_ok evaluators_ok[OF q])

lemma notify_members_ok:
  "(\<And>op. \<not> mfails e op) \<Longrightarrow> \<not> isl (fst (notify_members e ms s))"
  by (induction ms arbitrary: s)
     (simp_all add: sendNotification_def mbind_def mwrite_def mreturn_def)

lemma save_alerts_ok:
  "(\<And>op. \<not> mfails e op) \<Longrightarrow> \<not> isl (fst (save_alerts e t as s))"
  by (induction as arbitrary: s)
     (simp_all add: saveAlert_def mbind_def mwrite_def mreturn_def)

lemma decide_ok:
  assumes q: "\<And>op. \<not> mfails e op"
  shows "\<not> isl (fst (decide e t as s))"
  unfolding decide_def processAlerts_def generateSTR_def notifyComplianceTeam_def
    blockTransaction_def saveMonitoringResult_def sendNotification_def Let_def
  by (intro mbind_ok if_ok mreturn_ok mquery_ok[OF q] mwrite_ok[OF q]
      notify_members_ok save_alerts_ok q)

lemma monitorTransaction_quiet:
  assumes q: "\<And>op. \<not> mfails e op"
  shows "\<exists>as s1 s'. evaluate_rules e t s = (Inr as, s1) \<and>
           monitorTransaction e t s =
             (Inr \<lparr>blocked = shouldBlockTransaction as, alerts = as, error_flag = False\<rparr>, s')"
proof -
  have "\<not> isl (fst (monitor_try e t s))"
    unfolding monitor_try_def by (intro mbind_ok evaluate_rules_ok decide_ok q)
  then obtain r s' where tr: "monitor_try e t s = (Inr r, s')"
    by (cases "monitor_try e t s"; cases "fst (monitor_try e t s)") auto
  from monitor_try_Inr[OF tr] obtain as s1 where
    "evaluate_rules e t s = (Inr as, s1)"
    "r = \<lparr>blocked = shouldBlockTransaction as, alerts = as, error_flag = False\<rparr>"
    by blast
  moreover from tr have "monitorTransaction e t s = (Inr r, s')"
    by (simp add: monitorTransaction_def)
  ultimately show ?thesis by blast
qed





















lemma only_ctr_refl: "only_ctr s s"
  by (simp add: only_ctr_def)









text \<open>
  C10. \<open>checkTransactionAmount\<close> yields at most one alert. At or above the CTR threshold
  (2000000) it files one currency transaction report and returns \<open>CTR_REQUIRED\<close> of
  severity \<open>HIGH\<close>, never \<open>LARGE_TRANSACTION\<close> (if the insert of the report throws, the
  evaluator throws and returns no alert). Below the CTR threshold it files nothing and
  returns \<open>LARGE_TRANSACTION\<close> of severity \<open>MEDIUM\<close> when the amount is at or above the
  threshold of the account type (2000000 for business, 500000 otherwise), and nothing
  below it. So \<open>LARGE_TRANSACTION\<close> is returned only for amounts from the account
  threshold up to, and not including, the CTR threshold.
\<close>

theorem checkTransactionAmount_one_alert:
  "(ctr_threshold loadMonitoringRules \<le> m_amount t \<longrightarrow>
      checkTransactionAmount e t ty s =
        (if mfails e InsertCTR then (Inl DbError, s)
         else (Inr (Some \<lparr>alert_type = ''CTR_REQUIRED'', severity = ''HIGH''\<rparr>),
               s\<lparr>ctr_reports := ctr_reports s @ [m_transactionRef t]\<rparr>))) \<and>
   (m_amount t < ctr_threshold loadMonitoringRules \<longrightarrow>
      checkTransactionAmount e t ty s =
        (Inr (if account_threshold ty \<le> m_amount t
              then Some \<lparr>alert_type = ''LARGE_TRANSACTION'', severity = ''MEDIUM''\<rparr>
              else None), s)) \<and>
   (\<forall>a s'. checkTransactionAmount e t ty s = (Inr (Some a), s') \<and>
            alert_type a = ''LARGE_TRANSACTION'' \<longrightarrow>
        severity a = ''MEDIUM'' \<and> account_threshold ty \<le> m_amount t \<and>
        m_amount t < ctr_threshold loadMonitoringRules \<and> s' = s) \<and>
   (\<forall>r s'. checkTransactionAmount e t ty s = (Inr r, s') \<longrightarrow> length (push r) \<le> 1) \<and>
   ctr_threshold loadMonitoringRules = 2000000 \<and>
   account_threshold ty = (if ty = ''business'' then 2000000 else 500000)"
  by (auto simp add: checkTransactionAmount_def generateCTR_def mbind_def mwrite_def mreturn_def
      Let_def push_def account_threshold_def loadMonitoringRules_def
      split: if_splits option.splits)

theorem checkTransactionAmount_one_alert_witness:
  "checkTransactionAmount calm_env large_transfer ''personal'' empty_mon_db =
     (Inr (Some \<lparr>alert_type = ''CTR_REQUIRED'', severity = ''HIGH''\<rparr>),
      empty_mon_db\<lparr>ctr_reports := [''TXN1'']\<rparr>) \<and>
   checkTransactionAmount calm_env (plain_transfer\<lparr>m_amount := 600000\<rparr>) ''personal''
       empty_mon_db =
     (Inr (Some \<lparr>alert_type = ''LARGE_TRANSACTION'', severity = ''MEDIUM''\<rparr>), empty_mon_db) \<and>
   account_threshold ''personal'' \<le> 600000 \<and>
   600000 < ctr_threshold loadMonitoringRules \<and>
   length (push (Some \<lparr>alert_type = ''LARGE_TRANSACTION'', severity = ''MEDIUM''\<rparr>)) \<le> 1"
proof -
  have a1: "ctr_threshold loadMonitoringRules \<le> m_amount large_transfer"
    by (simp add: loadMonitoringRules_def large_transfer_def plain_transfer_def)
  have a2: "m_amount (plain_transfer\<lparr>m_amount := 600000\<rparr>) < ctr_threshold loadMonitoringRules"
    by (simp add: loadMonitoringRules_def)
  have a3: "account_threshold ''personal'' \<le> m_amount (plain_transfer\<lparr>m_amount := 600000\<rparr>)"
    by (simp add: account_threshold_def loadMonitoringRules_def)
  have nf: "\<not> mfails calm_env InsertCTR" by (simp add: calm_env_def)
  have r: "m_transactionRef large_transfer = ''TXN1''"
    by (simp add: large_transfer_def plain_transfer_def)
  have c: "ctr_reports empty_mon_db = []" by (simp add: empty_mon_db_def)
  from checkTransactionAmount_one_alert[where t = large_transfer and e = calm_env and
      ty = "''personal''" and s = empty_mon_db]
    a1 nf r c
  have p1: "checkTransactionAmount calm_env large_transfer ''personal'' empty_mon_db =
     (Inr (Some \<lparr>alert_type = ''CTR_REQUIRED'', severity = ''HIGH''\<rparr>),
      empty_mon_db\<lparr>ctr_reports := [''TXN1'']\<rparr>)"
    by simp
  from checkTransactionAmount_one_alert[where t = "plain_transfer\<lparr>m_amount := 600000\<rparr>" and
      e = calm_env and ty = "''personal''" and s = empty_mon_db] a2 a3
  have p2: "checkTransactionAmount calm_env (plain_transfer\<lparr>m_amount := 600000\<rparr>) ''personal''
       empty_mon_db =
     (Inr (Some \<lparr>alert_type = ''LARGE_TRANSACTION'', severity = ''MEDIUM''\<rparr>), empty_mon_db)"
    by simp
  note th = checkTransactionAmount_one_alert[where t = "plain_transfer\<lparr>m_amount := 600000\<rparr>" and
      e = calm_env and ty = "''personal''" and s = empty_mon_db]
  let ?large = "\<lparr>alert_type = ''LARGE_TRANSACTION'', severity = ''MEDIUM''\<rparr>"
  from th
  have "checkTransactionAmount calm_env (plain_transfer\<lparr>m_amount := 600000\<rparr>) ''personal''
            empty_mon_db = (Inr (Some ?large), empty_mon_db) \<and>
          alert_type ?large = ''LARGE_TRANSACTION'' \<longrightarrow>
        account_threshold ''personal'' \<le> m_amount (plain_transfer\<lparr>m_amount := 600000\<rparr>) \<and>
        m_amount (plain_transfer\<lparr>m_amount := 600000\<rparr>) < ctr_threshold loadMonitoringRules"
    by blast
  with p2
  have p3: "account_threshold ''personal'' \<le> 600000 \<and>
            600000 < ctr_threshold loadMonitoringRules"
    by simp
  from th
  have "checkTransactionAmount calm_env (plain_transfer\<lparr>m_amount := 600000\<rparr>) ''personal''
            empty_mon_db = (Inr (Some ?large), empty_mon_db) \<longrightarrow>
        length (push (Some ?large)) \<le> 1"
    by blast
  with p2 have p4: "length (push (Some ?large)) \<le> 1"
    by simp
  from p1 p2 p3 p4 show ?thesis
    by (intro conjI) simp_all
qed


end
